theory Spec2Isabelle
  imports Main "HOL-Library.Sublist" "HOL-Library.Word"
begin

section \<open>JavaScript strings, numbers and errors\<close>

text \<open>
  A JavaScript string is modelled as a \<^typ>\<open>string\<close>: the list of its code units, for
  strings whose code units are below 256.  \<open>startsWith\<close>, \<open>slice\<close>, \<open>split\<close> and
  \<open>toLowerCase\<close> work on code units, as the source's methods do.  A thrown
  \<open>Error(msg)\<close> is the value \<open>Inl (Error msg)\<close> of a result type \<open>error + 'a\<close>; a
  \<open>try { body } catch { handler }\<close> is \<open>try_catch body handler\<close>.
\<close>

datatype error = Error string

type_synonym byte = "8 word"

definition try_catch :: "error + 'a \<Rightarrow> (error \<Rightarrow> error + 'a) \<Rightarrow> error + 'a" where
  "try_catch body handler = (case body of Inl e \<Rightarrow> handler e | Inr v \<Rightarrow> Inr v)"

definition startsWith :: "string \<Rightarrow> string \<Rightarrow> bool" where
  "startsWith s p = prefix p s"

definition slice :: "string \<Rightarrow> nat \<Rightarrow> string" where
  "slice s n = drop n s"

text \<open>
  \<open>s.split(c)\<close> for a one-character separator; the empty string splits into one
  empty part.
\<close>

fun split :: "char \<Rightarrow> string \<Rightarrow> string list" where
  "split c [] = [[]]"
| "split c (x # xs) =
     (if x = c then [] # split c xs
      else (case split c xs of [] \<Rightarrow> [[x]] | p # ps \<Rightarrow> (x # p) # ps))"

text \<open>
  \<open>toLowerCase\<close> on code units below 256: the letters A to Z and the Latin-1 capitals
  (192 to 222, but the multiplication sign 215) move up by 32.
\<close>

definition lower_char :: "char \<Rightarrow> char" where
  "lower_char c =
     (let n = (of_char c :: nat)
      in if (65 \<le> n \<and> n \<le> 90) \<or> (192 \<le> n \<and> n \<le> 222 \<and> n \<noteq> 215)
         then char_of (n + 32) else c)"

definition toLowerCase :: "string \<Rightarrow> string" where
  "toLowerCase s = map lower_char s"

text \<open>\<open>new TextEncoder().encode(s)\<close>: UTF-8, two bytes for a code unit from 128 to 255.\<close>

definition utf8_unit :: "char \<Rightarrow> byte list" where
  "utf8_unit c =
     (let n = (of_char c :: nat)
      in if n < 128 then [of_nat n] else [of_nat (192 + n div 64), of_nat (128 + n mod 64)])"

definition utf8_encode :: "string \<Rightarrow> byte list" where
  "utf8_encode s = concat (map utf8_unit s)"

text \<open>
  Numbers.  A JavaScript number is an IEEE 754 double.  The doubles that occur here are
  the integral ones, \<open>Num i\<close> for the integer \<open>i\<close> they hold, the negative zero, the two
  infinities and \<open>NaN\<close>.  \<open>bit_length n\<close> is the number of binary digits of \<open>n\<close>, and
  \<open>round_double n\<close> is the double nearest to the integer \<open>n\<close>: \<open>n\<close> itself below
  \<open>2 ^ 53\<close>; above, the 53 leading binary digits are kept and what follows is rounded to
  nearest, a tie to the even neighbour; \<open>None\<close> when the rounded value reaches
  \<open>2 ^ 1024\<close>, where the doubles end and the number is an infinity.
  \<open>digit_value r c\<close> is the value of \<open>c\<close> as a digit of radix \<open>r\<close> (up to 36), if it
  is one.
\<close>

datatype jsnum = NaN | Num int | NegZero | Infinity | NegInfinity

fun bit_length :: "nat \<Rightarrow> nat" where
  "bit_length n = (if n = 0 then 0 else Suc (bit_length (n div 2)))"

declare bit_length.simps [simp del]

definition round_double :: "nat \<Rightarrow> nat option" where
  "round_double n =
     (if n < 2 ^ 53 then Some n
      else let e = bit_length n - 53;
               q = n div 2 ^ e;
               r = n mod 2 ^ e;
               q' = (if 2 ^ e < 2 * r \<or> (2 * r = 2 ^ e \<and> odd q) then q + 1 else q)
           in if 2 ^ 1024 \<le> q' * 2 ^ e then None else Some (q' * 2 ^ e))"

definition digit_value :: "nat \<Rightarrow> char \<Rightarrow> nat option" where
  "digit_value r c =
     (let n = (of_char c :: nat);
          v = (if 48 \<le> n \<and> n \<le> 57 then n - 48
               else if 97 \<le> n \<and> n \<le> 122 then n - 87
               else if 65 \<le> n \<and> n \<le> 90 then n - 55
               else 36)
      in if v < r then Some v else None)"

definition is_whitespace :: "char \<Rightarrow> bool" where
  "is_whitespace c = ((of_char c :: nat) \<in> {9, 10, 11, 12, 13, 32, 160})"

text \<open>
  \<open>parseInt(s, r)\<close> for \<open>r\<close> 10 or 16: leading white space is skipped, then an optional
  sign, then (radix 16 only) an optional \<open>0x\<close> or \<open>0X\<close>, then the longest run of digits;
  no digit at all gives \<open>NaN\<close>, and what follows the digits is ignored.  The result is
  the double nearest to the integer that the digits write, with the sign: an infinity
  when the digits are out of range, the negative zero for \<open>-0\<close>.
\<close>

definition digits_value :: "nat \<Rightarrow> string \<Rightarrow> nat" where
  "digits_value r ds =
     foldl (\<lambda>a c. a * r + (case digit_value r c of Some v \<Rightarrow> v | None \<Rightarrow> 0)) 0 ds"

definition parseInt :: "string \<Rightarrow> nat \<Rightarrow> jsnum" where
  "parseInt s r =
     (let t = dropWhile is_whitespace s;
          neg = (case t of c # _ \<Rightarrow> c = CHR ''-'' | [] \<Rightarrow> False);
          u = (case t of c # cs \<Rightarrow> if c = CHR ''-'' \<or> c = CHR ''+'' then cs else t | [] \<Rightarrow> t);
          w = (if r = 16 \<and> (startsWith u ''0x'' \<or> startsWith u ''0X'') then drop 2 u else u);
          ds = takeWhile (\<lambda>c. digit_value r c \<noteq> None) w
      in if ds = [] then NaN
         else (case round_double (digits_value r ds) of
                 None \<Rightarrow> if neg then NegInfinity else Infinity
               | Some m \<Rightarrow>
                   if neg then (if m = 0 then NegZero else Num (- int m)) else Num (int m)))"

text \<open>Decimal and hexadecimal numerals, as template literals and \<open>toString(16)\<close> print them.\<close>

definition digit_char :: "nat \<Rightarrow> char" where
  "digit_char d = ''0123456789abcdef'' ! d"

fun nat_digits :: "nat \<Rightarrow> nat \<Rightarrow> string" where
  "nat_digits r n =
     (if r < 2 \<or> n < r then [digit_char n]
      else nat_digits r (n div r) @ [digit_char (n mod r)])"

declare nat_digits.simps [simp del]

definition int_toString :: "nat \<Rightarrow> int \<Rightarrow> string" where
  "int_toString r i =
     (if i < 0 then CHR ''-'' # nat_digits r (nat (- i)) else nat_digits r (nat i))"

text \<open>\<open>Buffer.from(bytes).toString('base64')\<close>: the standard alphabet, padded with \<open>=\<close>.\<close>

definition base64_char :: "nat \<Rightarrow> char" where
  "base64_char n =
     ''ABCDEFGHIJKLMNOPQRSTUVWXYZabcdefghijklmnopqrstuvwxyz0123456789+/'' ! n"

fun bytesToBase64 :: "byte list \<Rightarrow> string" where
  "bytesToBase64 [] = []"
| "bytesToBase64 [a] =
     [base64_char (unat a div 4), base64_char (unat a mod 4 * 16), CHR ''='', CHR ''='']"
| "bytesToBase64 [a, b] =
     [base64_char (unat a div 4), base64_char (unat a mod 4 * 16 + unat b div 16),
      base64_char (unat b mod 16 * 4), CHR ''='']"
| "bytesToBase64 (a # b # c # bytes) =
     [base64_char (unat a div 4), base64_char (unat a mod 4 * 16 + unat b div 16),
      base64_char (unat b mod 16 * 4 + unat c div 64), base64_char (unat c mod 64)]
     @ bytesToBase64 bytes"

section \<open>The bs58 package\<close>

text \<open>
  \<open>bs58\<close> is a dependency, not code of the repository; it is modelled by what Base58 with
  the Bitcoin alphabet is.  \<open>encode\<close> writes one \<open>1\<close> for each leading zero byte, then the
  big-endian number of the bytes in radix 58.  \<open>decode\<close> throws on a character outside
  the alphabet and is otherwise the inverse: one zero byte for each leading \<open>1\<close>, then the
  bytes of the number.
\<close>

definition ALPHABET :: string where
  "ALPHABET = ''123456789ABCDEFGHJKLMNPQRSTUVWXYZabcdefghijkmnopqrstuvwxyz''"

fun index_of :: "char \<Rightarrow> string \<Rightarrow> nat" where
  "index_of c [] = 0"
| "index_of c (x # xs) = (if x = c then 0 else Suc (index_of c xs))"

definition nat_of_bytes :: "byte list \<Rightarrow> nat" where
  "nat_of_bytes bs = foldl (\<lambda>a b. a * 256 + unat b) 0 bs"

fun bytes_of_nat :: "nat \<Rightarrow> byte list" where
  "bytes_of_nat n = (if n = 0 then [] else bytes_of_nat (n div 256) @ [of_nat (n mod 256)])"

declare bytes_of_nat.simps [simp del]

fun b58_digits :: "nat \<Rightarrow> string" where
  "b58_digits n = (if n = 0 then [] else b58_digits (n div 58) @ [ALPHABET ! (n mod 58)])"

declare b58_digits.simps [simp del]

definition bs58_encode :: "byte list \<Rightarrow> string" where
  "bs58_encode bs =
     replicate (length (takeWhile (\<lambda>b. b = 0) bs)) (CHR ''1'') @ b58_digits (nat_of_bytes bs)"

definition b58_value :: "string \<Rightarrow> nat" where
  "b58_value s = foldl (\<lambda>a c. a * 58 + index_of c ALPHABET) 0 s"

definition bs58_decode :: "string \<Rightarrow> error + byte list" where
  "bs58_decode s =
     (if list_all (\<lambda>c. c \<in> set ALPHABET) s
      then Inr (replicate (length (takeWhile (\<lambda>c. c = CHR ''1'') s)) 0 @ bytes_of_nat (b58_value s))
      else Inl (Error ''Non-base58 character''))"

section \<open>The ethers package: isAddress\<close>

text \<open>
  \<open>ethers\<close> is a dependency too.  \<open>ethers.isAddress(v)\<close> is true when \<open>v\<close> is 40
  hexadecimal digits after an optional \<open>0x\<close> and, if it mixes upper-case and lower-case
  digits, is its own EIP-55 checksum casing; or when \<open>v\<close> is an ICAP address (\<open>XE\<close>, two
  check digits, 30 or 31 alphanumerics) whose check digits are right.  It never throws.
  The two checksums (Keccak-256 and IBAN mod 97) are not modelled: they are parameters,
  and every theorem holds whatever they compute.
\<close>

record ethers_lib =
  getChecksumAddress :: "string \<Rightarrow> string"
  ibanChecksum :: "string \<Rightarrow> string"

definition is_hex_digit :: "char \<Rightarrow> bool" where
  "is_hex_digit c = (digit_value 16 c \<noteq> None)"

definition is_alnum :: "char \<Rightarrow> bool" where
  "is_alnum c = (digit_value 36 c \<noteq> None)"

definition matches_hex_address :: "string \<Rightarrow> bool" where
  "matches_hex_address v =
     (let body = (if startsWith v ''0x'' then drop 2 v else v)
      in length body = 40 \<and> list_all is_hex_digit body)"

definition mixed_case :: "string \<Rightarrow> bool" where
  "mixed_case v =
     (list_ex (\<lambda>c. c \<in> set ''ABCDEF'') v \<and> list_ex (\<lambda>c. c \<in> set ''abcdef'') v)"

definition matches_icap :: "string \<Rightarrow> bool" where
  "matches_icap v =
     (startsWith v ''XE'' \<and> (length v = 34 \<or> length v = 35)
      \<and> list_all (\<lambda>c. digit_value 10 c \<noteq> None) (take 2 (drop 2 v))
      \<and> list_all is_alnum (drop 4 v))"

definition ethers_isAddress :: "ethers_lib \<Rightarrow> string \<Rightarrow> bool" where
  "ethers_isAddress L v =
     (if matches_hex_address v
      then (let a = (if startsWith v ''0x'' then v else ''0x'' @ v)
            in \<not> (mixed_case a \<and> getChecksumAddress L a \<noteq> a))
      else if matches_icap v then take 2 (drop 2 v) = ibanChecksum L v
      else False)"

text \<open>
  For the examples, the check digits of an ICAP address as the package computes them:
  the text after the first four characters, then \<open>XE\<close> and \<open>00\<close>, each letter written
  as its value from 10 to 35; the decimal number so written is reduced modulo 97 (the
  package reduces it in blocks of 15 digits, with the same remainder) and taken from 98.
  \<open>icap_lib g\<close> is a library with these check digits, whatever its checksum casing
  \<open>g\<close> is.
\<close>

definition iban_checksum :: "string \<Rightarrow> string" where
  "iban_checksum address =
     (let a = drop 4 address @ take 2 address @ ''00'';
          expanded = concat (map (\<lambda>c. case digit_value 36 c of
                                          Some v \<Rightarrow> nat_digits 10 v | None \<Rightarrow> []) a);
          checksum = nat_digits 10 (98 - digits_value 10 expanded mod 97)
      in if length checksum < 2 then ''0'' @ checksum else checksum)"

definition icap_lib :: "(string \<Rightarrow> string) \<Rightarrow> ethers_lib" where
  "icap_lib g = \<lparr>getChecksumAddress = g, ibanChecksum = iban_checksum\<rparr>"

section \<open>The signature primitives\<close>

text \<open>
  The cryptography itself (tweetnacl, noble-ed25519, the ethers wallet) and the two
  sources of random bytes are parameters.  A primitive that can throw returns a result.
  \<open>crypto_sign\<close> is tweetnacl's signed message for a 64-byte secret key and
  \<open>crypto_sign_open\<close> its check of a 64-byte signature against a 32-byte public key;
  the size checks that tweetnacl makes before them are written out in
  \<open>nacl_sign_detached\<close> and \<open>nacl_sign_detached_verify\<close>.  A source of random bytes
  gives the byte it puts at each index; filling an array of \<open>n\<close> bytes gives \<open>n\<close> bytes.
\<close>

record primitives =
  crypto_sign :: "byte list \<Rightarrow> byte list \<Rightarrow> byte list"
  crypto_sign_open :: "byte list \<Rightarrow> byte list \<Rightarrow> byte list \<Rightarrow> bool"
  ed25519_signAsync :: "byte list \<Rightarrow> byte list \<Rightarrow> error + byte list"
  ed25519_verifyAsync :: "byte list \<Rightarrow> byte list \<Rightarrow> byte list \<Rightarrow> error + bool"
  wallet_sign :: "string \<Rightarrow> string \<Rightarrow> error + string"
  ethers_verifyMessage :: "string \<Rightarrow> string \<Rightarrow> error + string"
  webcrypto_random :: "nat \<Rightarrow> byte"
  nacl_random :: "nat \<Rightarrow> byte"

definition webcrypto_getRandomValues :: "primitives \<Rightarrow> nat \<Rightarrow> byte list" where
  "webcrypto_getRandomValues P n = map (webcrypto_random P) [0..<n]"

definition nacl_randomBytes :: "primitives \<Rightarrow> nat \<Rightarrow> byte list" where
  "nacl_randomBytes P n = map (nacl_random P) [0..<n]"

definition nacl_sign_detached :: "primitives \<Rightarrow> byte list \<Rightarrow> byte list \<Rightarrow> error + byte list" where
  "nacl_sign_detached P msg secretKey =
     (if length secretKey \<noteq> 64 then Inl (Error ''bad secret key size'')
      else let signedMsg = crypto_sign P msg secretKey
           in Inr (map (\<lambda>i. if i < length signedMsg then signedMsg ! i else 0) [0..<64]))"


section \<open>solana-crypto.ts\<close>

text \<open>
  \<open>isValidSolanaAddress\<close>, \<open>didToWalletAddress\<close> and \<open>isValidSolanaDid\<close>, with the
  source's throws and its two \<open>try\<close>/\<open>catch\<close> blocks.
\<close>

definition isValidSolanaAddress :: "string \<Rightarrow> error + bool" where
  "isValidSolanaAddress address =
     try_catch
       (case bs58_decode address of
          Inl e \<Rightarrow> Inl e
        | Inr decoded \<Rightarrow> Inr (length decoded = 32))
       (\<lambda>e. Inr False)"

definition didToWalletAddress :: "string \<Rightarrow> error + string" where
  "didToWalletAddress did =
     (if \<not> startsWith did ''did:pkh:solana:'' then Inl (Error ''Invalid Solana did:pkh format'')
      else let parts = split (CHR '':'') did
           in if length parts \<noteq> 5
              then Inl (Error ''Invalid did:pkh format. Expected did:pkh:solana:chainId:address'')
              else let address = parts ! 4
                   in (case isValidSolanaAddress address of
                         Inl e \<Rightarrow> Inl e
                       | Inr ok \<Rightarrow>
                           if \<not> ok then Inl (Error ''Invalid Solana address in DID'')
                           else Inr address))"

definition isValidSolanaDid :: "string \<Rightarrow> error + bool" where
  "isValidSolanaDid did =
     try_catch
       (case didToWalletAddress did of
          Inl e \<Rightarrow> Inl e
        | Inr address \<Rightarrow> isValidSolanaAddress address)
       (\<lambda>e. Inr False)"

text \<open>
  \<open>signSolanaMessage\<close> and \<open>verifySolanaSignature\<close>.  The verifier's \<open>try\<close> block is
  \<open>verifySolanaSignature_try\<close>; its \<open>catch\<close> prints one diagnostic and returns false.
  The second component of the verifier's result is what it printed.
\<close>

definition signSolanaMessage :: "primitives \<Rightarrow> string \<Rightarrow> string \<Rightarrow> error + string" where
  "signSolanaMessage P message privateKeyBase58 =
     (let messageBytes = utf8_encode message
      in case bs58_decode privateKeyBase58 of
           Inl e \<Rightarrow> Inl e
         | Inr privateKeyBytes \<Rightarrow>
             if length privateKeyBytes \<noteq> 64
             then Inl (Error ''Invalid private key length. Expected 64 bytes for Solana keypair.'')
             else (case nacl_sign_detached P messageBytes privateKeyBytes of
                     Inl e \<Rightarrow> Inl e
                   | Inr signature \<Rightarrow> Inr (bs58_encode signature)))"




definition generateSolanaNonce :: "primitives \<Rightarrow> string" where
  "generateSolanaNonce P = bs58_encode (nacl_randomBytes P 32)"

section \<open>evm-crypto.ts\<close>

definition didToAddress :: "string \<Rightarrow> error + string" where
  "didToAddress did =
     (if startsWith did ''did:ethr:'' then
        (let parts = split (CHR '':'') did
         in if length parts = 3 then Inr (toLowerCase (parts ! 2))
            else if length parts = 4 then Inr (toLowerCase (parts ! 3))
            else Inl (Error ''Invalid did:ethr format''))
      else if startsWith did ''did:pkh:eip155:'' then
        (let parts = split (CHR '':'') did
         in if length parts \<noteq> 5
            then Inl (Error ''Invalid did:pkh:eip155 format. Expected did:pkh:eip155:chainId:address'')
            else Inr (toLowerCase (parts ! 4)))
      else Inl (Error ''Unsupported DID format. Expected did:ethr or did:pkh:eip155''))"

definition isValidEvmDid :: "ethers_lib \<Rightarrow> string \<Rightarrow> error + bool" where
  "isValidEvmDid L did =
     try_catch
       (case didToAddress did of
          Inl e \<Rightarrow> Inl e
        | Inr address \<Rightarrow> Inr (ethers_isAddress L address))
       (\<lambda>e. Inr False)"

definition isValidEvmAddress :: "ethers_lib \<Rightarrow> string \<Rightarrow> error + bool" where
  "isValidEvmAddress L address =
     try_catch (Inr (ethers_isAddress L address)) (\<lambda>e. Inr False)"

text \<open>
  \<open>addressToEthrDid\<close>.  The optional \<open>chainId\<close> is a number or a string; \<open>None\<close> is
  \<open>undefined\<close>.  A chain id that is a number is one of the numbers above: chain ids
  are integers.  A value is truthy unless it is \<open>undefined\<close>, the empty string, a zero
  or \<open>NaN\<close>.  \<open>toString(16)\<close> writes an integral number with all its hexadecimal digits
  and an infinity by its name.
\<close>

datatype chain_id = ChainNum jsnum | ChainStr string

definition truthy :: "string option \<Rightarrow> bool" where
  "truthy v = (case v of None \<Rightarrow> False | Some s \<Rightarrow> s \<noteq> [])"

definition chain_truthy :: "chain_id option \<Rightarrow> bool" where
  "chain_truthy c =
     (case c of
        None \<Rightarrow> False
      | Some (ChainStr s) \<Rightarrow> s \<noteq> []
      | Some (ChainNum NaN) \<Rightarrow> False
      | Some (ChainNum (Num i)) \<Rightarrow> i \<noteq> 0
      | Some (ChainNum NegZero) \<Rightarrow> False
      | Some (ChainNum Infinity) \<Rightarrow> True
      | Some (ChainNum NegInfinity) \<Rightarrow> True)"

definition normalizeAddress :: "string \<Rightarrow> string" where
  "normalizeAddress address =
     (if startsWith (toLowerCase address) ''0x'' then toLowerCase address
      else ''0x'' @ toLowerCase address)"

definition hexChainId :: "chain_id \<Rightarrow> string" where
  "hexChainId c =
     (case c of
        ChainNum NaN \<Rightarrow> ''0xNaN''
      | ChainNum (Num i) \<Rightarrow> ''0x'' @ int_toString 16 i
      | ChainNum NegZero \<Rightarrow> ''0x0''
      | ChainNum Infinity \<Rightarrow> ''0xInfinity''
      | ChainNum NegInfinity \<Rightarrow> ''0x-Infinity''
      | ChainStr s \<Rightarrow> s)"

definition addressToEthrDid ::
  "ethers_lib \<Rightarrow> string \<Rightarrow> chain_id option \<Rightarrow> string option \<Rightarrow> error + string" where
  "addressToEthrDid L address chainId network =
     (let normalizedAddress = normalizeAddress address
      in if \<not> ethers_isAddress L normalizedAddress then Inl (Error ''Invalid Ethereum address'')
         else if truthy network \<and> network \<noteq> Some ''mainnet''
         then Inr (''did:ethr:'' @ (case network of Some n \<Rightarrow> n | None \<Rightarrow> ''undefined'')
                     @ '':'' @ normalizedAddress)
         else if chain_truthy chainId \<and> chainId \<noteq> Some (ChainNum (Num 1))
                 \<and> chainId \<noteq> Some (ChainStr ''0x1'')
         then Inr (''did:ethr:'' @ (case chainId of Some c \<Rightarrow> hexChainId c | None \<Rightarrow> ''undefined'')
                     @ '':'' @ normalizedAddress)
         else Inr (''did:ethr:'' @ normalizedAddress))"

text \<open>
  \<open>extractChainId\<close>.  The look-up \<open>networkMap[name] || null\<close> finds the six networks
  and, for a name that \<open>Object.prototype\<close> defines, the inherited member.
\<close>

datatype chain_result = Null | Number jsnum | Inherited string

definition networkMap :: "string \<Rightarrow> int option" where
  "networkMap =
     map_of [(''mainnet'', 1), (''goerli'', 5), (''sepolia'', 11155111),
             (''polygon'', 137), (''optimism'', 10), (''arbitrum'', 42161)]"

definition object_prototype_names :: "string list" where
  "object_prototype_names =
     [''constructor'', ''__defineGetter__'', ''__defineSetter__'', ''hasOwnProperty'',
      ''__lookupGetter__'', ''__lookupSetter__'', ''isPrototypeOf'', ''propertyIsEnumerable'',
      ''toString'', ''valueOf'', ''__proto__'', ''toLocaleString'']"

definition extractChainId :: "string \<Rightarrow> chain_result" where
  "extractChainId did =
     (if startsWith did ''did:ethr:'' then
        (let parts = split (CHR '':'') did
         in if length parts = 3 then Number (Num 1)
            else if length parts = 4 then
              (let networkOrChainId = parts ! 2
               in if startsWith networkOrChainId ''0x'' then Number (parseInt networkOrChainId 16)
                  else (case networkMap networkOrChainId of
                          Some n \<Rightarrow> if n \<noteq> 0 then Number (Num n) else Null
                        | None \<Rightarrow>
                            if networkOrChainId \<in> set object_prototype_names
                            then Inherited networkOrChainId else Null))
            else Null)
      else if startsWith did ''did:pkh:eip155:'' then
        (let parts = split (CHR '':'') did
         in if length parts = 5 then Number (parseInt (parts ! 3) 10) else Null)
      else Null)"

text \<open>\<open>signEvmMessage\<close>, \<open>verifyEvmSignature\<close> and \<open>generateEvmNonce\<close>.\<close>

definition signEvmMessage :: "primitives \<Rightarrow> string \<Rightarrow> string \<Rightarrow> error + string" where
  "signEvmMessage P message privateKeyHex =
     (let privateKey = (if startsWith privateKeyHex ''0x'' then privateKeyHex
                        else ''0x'' @ privateKeyHex)
      in wallet_sign P privateKey message)"



definition generateEvmNonce :: "primitives \<Rightarrow> string" where
  "generateEvmNonce P = bytesToBase64 (webcrypto_getRandomValues P 32)"

section \<open>did-helpers.ts\<close>

datatype DidProvider = Key | Solana | Evm

definition detectDidProvider :: "ethers_lib \<Rightarrow> string \<Rightarrow> error + DidProvider" where
  "detectDidProvider L did =
     (if startsWith did ''did:key:'' then Inr Key
      else if startsWith did ''did:pkh:solana:'' then Inr Solana
      else if startsWith did ''did:ethr:'' \<or> startsWith did ''did:pkh:eip155:'' then Inr Evm
      else (case isValidSolanaAddress did of
              Inl e \<Rightarrow> Inl e
            | Inr True \<Rightarrow> Inr Solana
            | Inr False \<Rightarrow>
                (case isValidEvmAddress L did of
                   Inl e \<Rightarrow> Inl e
                 | Inr True \<Rightarrow> Inr Evm
                 | Inr False \<Rightarrow> Inr Key)))"

text \<open>
  \<open>getCredentialsFromEnv\<close>.  The environment maps a variable's name to its value, or to
  \<open>None\<close> when it is not set; \<open>a || b\<close> on two such values is \<open>js_or a b\<close>.  The three
  blocks of the source are the three nested tests, in the source's order.
\<close>

type_synonym env = "string \<Rightarrow> string option"

record credential =
  c_did :: string
  c_privateKey :: string
  c_provider :: DidProvider

definition js_or :: "string option \<Rightarrow> string option \<Rightarrow> string option" where
  "js_or a b = (if truthy a then a else b)"

definition value_of :: "string option \<Rightarrow> string" where
  "value_of v = (case v of Some s \<Rightarrow> s | None \<Rightarrow> [])"

definition or_else :: "error + bool \<Rightarrow> error + bool \<Rightarrow> error + bool" where
  "or_else a b = (case a of Inl e \<Rightarrow> Inl e | Inr ok \<Rightarrow> if ok then Inr True else b)"

definition getCredentialsFromEnv ::
  "ethers_lib \<Rightarrow> env \<Rightarrow> DidProvider option \<Rightarrow> error + credential option" where
  "getCredentialsFromEnv L env provider =
     (let solanaDid = js_or (env ''AGENT_SOLANA_DID'') (env ''AGENT_DID'');
          solanaKey = js_or (env ''AGENT_SOLANA_PRIVATE_KEY'') (env ''AGENT_PRIVATE_KEY'');
          evmDid = js_or (env ''AGENT_EVM_DID'') (env ''AGENT_DID'');
          evmKey = js_or (env ''AGENT_EVM_PRIVATE_KEY'') (env ''AGENT_PRIVATE_KEY'');
          keyDid = env ''AGENT_DID'';
          keyPrivateKey = env ''AGENT_PRIVATE_KEY''
      in case (if (provider = Some Solana \<or> provider = None) \<and> truthy solanaDid \<and> truthy solanaKey
               then or_else (isValidSolanaDid (value_of solanaDid))
                            (isValidSolanaAddress (value_of solanaDid))
               else Inr False) of
           Inl e \<Rightarrow> Inl e
         | Inr True \<Rightarrow>
             Inr (Some \<lparr>c_did = value_of solanaDid, c_privateKey = value_of solanaKey,
                        c_provider = Solana\<rparr>)
         | Inr False \<Rightarrow>
             (case (if (provider = Some Evm \<or> provider = None) \<and> truthy evmDid \<and> truthy evmKey
                    then or_else (isValidEvmDid L (value_of evmDid))
                                 (isValidEvmAddress L (value_of evmDid))
                    else Inr False) of
                Inl e \<Rightarrow> Inl e
              | Inr True \<Rightarrow>
                  Inr (Some \<lparr>c_did = value_of evmDid, c_privateKey = value_of evmKey,
                             c_provider = Evm\<rparr>)
              | Inr False \<Rightarrow>
                  if (provider = Some Key \<or> provider = None) \<and> truthy keyDid
                     \<and> truthy keyPrivateKey \<and> startsWith (value_of keyDid) ''did:key:''
                  then Inr (Some \<lparr>c_did = value_of keyDid, c_privateKey = value_of keyPrivateKey,
                                  c_provider = Key\<rparr>)
                  else Inr None))"

section \<open>crypto.ts\<close>

text \<open>
  \<open>hexToBytes\<close> fills an array of \<open>hex.length / 2\<close> bytes (rounded down) from the
  two-character pieces of the string: each is read by \<open>parseInt(piece, 16)\<close> and stored
  modulo 256, \<open>NaN\<close>, a zero and an infinity as 0.  A last single character is read and
  its value dropped.
\<close>

definition toUint8 :: "jsnum \<Rightarrow> byte" where
  "toUint8 v = (case v of Num i \<Rightarrow> of_int i | _ \<Rightarrow> 0)"

fun hexToBytes :: "string \<Rightarrow> byte list" where
  "hexToBytes (a # b # hex) = toUint8 (parseInt [a, b] 16) # hexToBytes hex"
| "hexToBytes hex = []"

definition padStart2 :: "string \<Rightarrow> string" where
  "padStart2 s = replicate (2 - length s) (CHR ''0'') @ s"

definition bytesToHex :: "byte list \<Rightarrow> string" where
  "bytesToHex bytes = concat (map (\<lambda>b. padStart2 (nat_digits 16 (unat b))) bytes)"

definition generateNonce :: "primitives \<Rightarrow> string" where
  "generateNonce P = bytesToBase64 (webcrypto_getRandomValues P 32)"

definition signMessage :: "primitives \<Rightarrow> string \<Rightarrow> string \<Rightarrow> error + string" where
  "signMessage P message privateKeyHex =
     (let messageBytes = utf8_encode message;
          privateKeyBytes = hexToBytes privateKeyHex
      in case ed25519_signAsync P messageBytes privateKeyBytes of
           Inl e \<Rightarrow> Inl e
         | Inr signature \<Rightarrow> Inr (bytesToHex signature))"



text \<open>
  \<open>extractPublicKeyFromDID\<close>: the guard tests the nine characters \<open>did:key:z\<close>,
  the slice removes eight, and the second guard tests the slice for \<open>6Mk\<close>.
\<close>

definition extractPublicKeyFromDID :: "string \<Rightarrow> string option" where
  "extractPublicKeyFromDID did =
     (if \<not> startsWith did ''did:key:z'' then None
      else let multibaseKey = slice did 8
           in if startsWith multibaseKey ''6Mk'' then Some multibaseKey else None)"

section \<open>get-mcp-tools.ts: generate_auth_payload\<close>

text \<open>
  The callback of the \<open>generate_auth_payload\<close> tool.  \<open>now\<close> is what \<open>Date.now()\<close>
  returns.  The file holds three copies of the callback.  Two are alike and read the
  credential from the environment only: \<open>generate_auth_payload\<close>.  One also takes a
  DID and a private key as arguments: \<open>generate_auth_payload_args\<close>.  All log an
  error and throw it again, so the error is the result.
\<close>

record auth_payload =
  p_did :: string
  p_timestamp :: nat
  p_nonce :: string
  p_signature :: string
  p_provider :: DidProvider

definition sign_for ::
  "primitives \<Rightarrow> DidProvider \<Rightarrow> string \<Rightarrow> string \<Rightarrow> error + string" where
  "sign_for P provider message privateKey =
     (if provider = Solana then signSolanaMessage P message privateKey
      else if provider = Evm then signEvmMessage P message privateKey
      else signMessage P message privateKey)"

definition no_credentials :: error where
  "no_credentials =
     Error (''No credentials found in environment variables. Please set AGENT_DID and ''
            @ ''AGENT_PRIVATE_KEY (or provider-specific variants).'')"

definition generate_auth_payload ::
  "ethers_lib \<Rightarrow> primitives \<Rightarrow> env \<Rightarrow> nat \<Rightarrow> DidProvider option \<Rightarrow> error + auth_payload" where
  "generate_auth_payload L P env now providedProvider =
     try_catch
       (case getCredentialsFromEnv L env providedProvider of
          Inl e \<Rightarrow> Inl e
        | Inr None \<Rightarrow> Inl no_credentials
        | Inr (Some envCreds) \<Rightarrow>
            (let did = c_did envCreds;
                 privateKey = c_privateKey envCreds;
                 provider = c_provider envCreds;
                 timestamp = now;
                 nonce = generateNonce P;
                 message = did @ '':'' @ int_toString 10 (int timestamp) @ '':'' @ nonce
             in case sign_for P provider message privateKey of
                  Inl e \<Rightarrow> Inl e
                | Inr signature \<Rightarrow>
                    Inr \<lparr>p_did = did, p_timestamp = timestamp, p_nonce = nonce,
                         p_signature = signature, p_provider = provider\<rparr>))
       (\<lambda>e. Inl e)"

definition generate_auth_payload_args ::
  "ethers_lib \<Rightarrow> primitives \<Rightarrow> env \<Rightarrow> nat \<Rightarrow> string option \<Rightarrow> string option
     \<Rightarrow> DidProvider option \<Rightarrow> error + auth_payload" where
  "generate_auth_payload_args L P env now providedDid providedKey providedProvider =
     try_catch
       (case (if \<not> truthy providedDid \<or> \<not> truthy providedKey
              then (case getCredentialsFromEnv L env providedProvider of
                      Inl e \<Rightarrow> Inl e
                    | Inr None \<Rightarrow>
                        Inl (Error (''No DID or private key provided, and none found in ''
                                    @ ''environment variables''))
                    | Inr (Some envCreds) \<Rightarrow>
                        Inr (if truthy providedDid then value_of providedDid else c_did envCreds,
                             if truthy providedKey then value_of providedKey
                             else c_privateKey envCreds,
                             case providedProvider of Some p \<Rightarrow> Some p
                             | None \<Rightarrow> Some (c_provider envCreds)))
              else Inr (value_of providedDid, value_of providedKey, providedProvider)) of
          Inl e \<Rightarrow> Inl e
        | Inr (did, privateKey, provider0) \<Rightarrow>
            (case (case provider0 of Some p \<Rightarrow> Inr p | None \<Rightarrow> detectDidProvider L did) of
               Inl e \<Rightarrow> Inl e
             | Inr provider \<Rightarrow>
                 (let timestamp = now;
                      nonce = (if provider = Solana then generateSolanaNonce P
                               else if provider = Evm then generateEvmNonce P
                               else generateNonce P);
                      message = did @ '':'' @ int_toString 10 (int timestamp) @ '':'' @ nonce
                  in case sign_for P provider message privateKey of
                       Inl e \<Rightarrow> Inl e
                     | Inr signature \<Rightarrow>
                         Inr \<lparr>p_did = did, p_timestamp = timestamp, p_nonce = nonce,
                              p_signature = signature, p_provider = provider\<rparr>)))
       (\<lambda>e. Inl e)"

section \<open>The specification's words\<close>

text \<open>
  The definitions of this section follow the specification, not the source; the
  theorems compare the two.  A string is a raw Solana address when it base58-decodes to
  exactly 32 bytes; a Solana \<open>did:pkh\<close> has the prefix, five segments and such an
  address last; an EVM DID is one whose address part is a valid address.
\<close>

definition decodes_to_32_bytes :: "string \<Rightarrow> bool" where
  "decodes_to_32_bytes s =
     (case bs58_decode s of Inl e \<Rightarrow> False | Inr bytes \<Rightarrow> length bytes = 32)"

definition valid_solana_did :: "string \<Rightarrow> bool" where
  "valid_solana_did d =
     (prefix ''did:pkh:solana:'' d \<and> length (split (CHR '':'') d) = 5
      \<and> decodes_to_32_bytes (split (CHR '':'') d ! 4))"

definition valid_evm_did :: "ethers_lib \<Rightarrow> string \<Rightarrow> bool" where
  "valid_evm_did L d =
     (case didToAddress d of Inl e \<Rightarrow> False | Inr a \<Rightarrow> ethers_isAddress L a)"

text \<open>Provider detection: the six rules, first match wins.\<close>

definition detect_spec :: "ethers_lib \<Rightarrow> string \<Rightarrow> DidProvider" where
  "detect_spec L s =
     (if prefix ''did:key:'' s then Key
      else if prefix ''did:pkh:solana:'' s then Solana
      else if prefix ''did:ethr:'' s \<or> prefix ''did:pkh:eip155:'' s then Evm
      else if decodes_to_32_bytes s then Solana
      else if ethers_isAddress L s then Evm
      else Key)"

text \<open>
  Credential resolution: a variable is read with a fall-back to the generic one when
  it is unset or empty; each branch accepts when both values are present and the DID
  validates; the branches are tried in the order Solana, EVM, key, each only when the
  hint is unset or names it, and the first that accepts wins.
\<close>

definition read_var :: "env \<Rightarrow> string \<Rightarrow> string \<Rightarrow> string option" where
  "read_var env specific generic =
     (case env specific of
        None \<Rightarrow> env generic
      | Some s \<Rightarrow> if s = [] then env generic else Some s)"

definition solana_branch :: "env \<Rightarrow> credential option" where
  "solana_branch env =
     (case (read_var env ''AGENT_SOLANA_DID'' ''AGENT_DID'',
            read_var env ''AGENT_SOLANA_PRIVATE_KEY'' ''AGENT_PRIVATE_KEY'') of
        (Some d, Some k) \<Rightarrow>
          if d \<noteq> [] \<and> k \<noteq> [] \<and> (valid_solana_did d \<or> decodes_to_32_bytes d)
          then Some \<lparr>c_did = d, c_privateKey = k, c_provider = Solana\<rparr> else None
      | _ \<Rightarrow> None)"

definition evm_branch :: "ethers_lib \<Rightarrow> env \<Rightarrow> credential option" where
  "evm_branch L env =
     (case (read_var env ''AGENT_EVM_DID'' ''AGENT_DID'',
            read_var env ''AGENT_EVM_PRIVATE_KEY'' ''AGENT_PRIVATE_KEY'') of
        (Some d, Some k) \<Rightarrow>
          if d \<noteq> [] \<and> k \<noteq> [] \<and> (valid_evm_did L d \<or> ethers_isAddress L d)
          then Some \<lparr>c_did = d, c_privateKey = k, c_provider = Evm\<rparr> else None
      | _ \<Rightarrow> None)"

definition key_branch :: "env \<Rightarrow> credential option" where
  "key_branch env =
     (case (env ''AGENT_DID'', env ''AGENT_PRIVATE_KEY'') of
        (Some d, Some k) \<Rightarrow>
          if d \<noteq> [] \<and> k \<noteq> [] \<and> prefix ''did:key:'' d
          then Some \<lparr>c_did = d, c_privateKey = k, c_provider = Key\<rparr> else None
      | _ \<Rightarrow> None)"

definition hint_allows :: "DidProvider option \<Rightarrow> DidProvider \<Rightarrow> bool" where
  "hint_allows hint p = (hint = None \<or> hint = Some p)"

definition first_of :: "'a option list \<Rightarrow> 'a option" where
  "first_of xs = (case filter (\<lambda>x. x \<noteq> None) xs of [] \<Rightarrow> None | x # _ \<Rightarrow> x)"

definition resolve_spec :: "ethers_lib \<Rightarrow> env \<Rightarrow> DidProvider option \<Rightarrow> credential option" where
  "resolve_spec L env hint =
     first_of [if hint_allows hint Solana then solana_branch env else None,
               if hint_allows hint Evm then evm_branch L env else None,
               if hint_allows hint Key then key_branch env else None]"

text \<open>
  The three variables that hold a private key, a text with no colon in it, and what a
  credential says apart from its key.
\<close>

definition did_and_provider :: "credential \<Rightarrow> string \<times> DidProvider" where
  "did_and_provider c = (c_did c, c_provider c)"

definition key_vars :: "string list" where
  "key_vars = [''AGENT_PRIVATE_KEY'', ''AGENT_SOLANA_PRIVATE_KEY'', ''AGENT_EVM_PRIVATE_KEY'']"

definition colon_free :: "string \<Rightarrow> bool" where
  "colon_free s = (CHR '':'' \<notin> set s)"

text \<open>
  The explicit non-mainnet network or chain id of a DID, as the text that stands for it
  in the DID: the network if one is given and is not \<open>mainnet\<close>; otherwise the chain
  id if one is given and is neither 1 nor \<open>0x1\<close>, a number written in hexadecimal after
  \<open>0x\<close>; otherwise none.
\<close>

definition ethr_segment :: "chain_id option \<Rightarrow> string option \<Rightarrow> string option" where
  "ethr_segment chainId network =
     (if truthy network \<and> network \<noteq> Some ''mainnet'' then network
      else if chain_truthy chainId \<and> chainId \<noteq> Some (ChainNum (Num 1))
              \<and> chainId \<noteq> Some (ChainStr ''0x1'')
      then map_option hexChainId chainId
      else None)"

section \<open>Sample inputs\<close>

text \<open>
  Concrete inputs for the examples: the wrapped-SOL address (32 bytes) in a Solana
  \<open>did:pkh\<close>, a 64-byte key (64 zero bytes) in base58, the environment that holds
  only the two generic variables, the same environment with a key that is no Solana
  keypair, primitives that reject what they are given, primitives that accept it, and
  a decimal numeral of 310 digits.
\<close>

definition sample_solana_did :: string where
  "sample_solana_did =
     ''did:pkh:solana:4sGjMW1sUnHzSxGspuhpqLDx6wiyjNtZ:So11111111111111111111111111111111111111112''"

definition sample_solana_key :: string where
  "sample_solana_key =
     ''1111111111111111111111111111111111111111111111111111111111111111''"

definition sample_env :: env where
  "sample_env = [''AGENT_DID'' \<mapsto> sample_solana_did, ''AGENT_PRIVATE_KEY'' \<mapsto> sample_solana_key]"

definition bad_key_env :: env where
  "bad_key_env = [''AGENT_DID'' \<mapsto> sample_solana_did, ''AGENT_PRIVATE_KEY'' \<mapsto> ''abc'']"

definition rejecting_primitives :: primitives where
  "rejecting_primitives =
     \<lparr>crypto_sign = (\<lambda>msg key. []),
      crypto_sign_open = (\<lambda>msg sig key. False),
      ed25519_signAsync = (\<lambda>msg key. Inl (Error ''invalid private key'')),
      ed25519_verifyAsync = (\<lambda>sig msg key. Inl (Error ''invalid signature'')),
      wallet_sign = (\<lambda>key msg. Inl (Error ''invalid private key'')),
      ethers_verifyMessage = (\<lambda>msg sig. Inl (Error ''invalid signature'')),
      webcrypto_random = (\<lambda>i. 0),
      nacl_random = (\<lambda>i. 0)\<rparr>"


definition long_decimal :: string where
  "long_decimal =
     ''1000000000000000000000000000000000000000000000000000000000000000000000000000000000000000000000000000000000000000000000000000000000000000000000000000000000000000000000000000000000000000000000000000000000000000000000000000000000000000000000000000000000000000000000000000000000000000000000000000000000000000000000''"

section \<open>Facts about the helpers\<close>

subsection \<open>Splitting, lower case, numerals\<close>

lemma split_no_sep: "c \<notin> set s \<Longrightarrow> split c s = [s]"
  by (induction s) auto

lemma split_append_sep: "c \<notin> set a \<Longrightarrow> split c (a @ c # b) = a # split c b"
  by (induction a) auto

lemma split_length: "length (split c s) = Suc (length (filter (\<lambda>x. x = c) s))"
  by (induction s) (auto split: list.splits)

lemma lower_char_idem: "lower_char (lower_char c) = lower_char c"
  by (auto simp: lower_char_def Let_def)

lemma lower_char_0x: "lower_char (CHR ''0'') = CHR ''0''" "lower_char (CHR ''x'') = CHR ''x''"
  by code_simp+

lemma toLowerCase_normalizeAddress: "toLowerCase (normalizeAddress a) = normalizeAddress a"
  by (simp add: normalizeAddress_def toLowerCase_def lower_char_idem lower_char_0x comp_def)

lemma digit_char_no_colon: "d < 16 \<Longrightarrow> digit_char d \<noteq> CHR '':''"
proof -
  assume "d < 16"
  then have "digit_char d \<in> set ''0123456789abcdef''"
    unfolding digit_char_def by (intro nth_mem) simp
  then show ?thesis by auto
qed

lemma nat_digits_16_no_colon: "CHR '':'' \<notin> set (nat_digits 16 n)"
proof (induction n rule: less_induct)
  case (less n)
  show ?case
  proof (cases "n < 16")
    case True
    then show ?thesis using digit_char_no_colon[of n] by (subst nat_digits.simps) simp
  next
    case False
    then have "n div 16 < n" by simp
    from less.IH[OF this] False digit_char_no_colon[of "n mod 16"]
    show ?thesis by (subst nat_digits.simps) simp
  qed
qed

lemma hexChainId_no_colon:
  "(case c of ChainStr s \<Rightarrow> colon_free s | ChainNum n \<Rightarrow> True) \<Longrightarrow> CHR '':'' \<notin> set (hexChainId c)"
  by (auto simp: hexChainId_def int_toString_def nat_digits_16_no_colon colon_free_def split: chain_id.splits jsnum.splits)

lemma parseInt_no_digit:
  assumes "list_all (\<lambda>c. digit_value 10 c = None) seg"
  shows "parseInt seg 10 = NaN"
proof -
  have sub: "\<And>w. set w \<subseteq> set seg \<Longrightarrow> takeWhile (\<lambda>c. digit_value 10 c \<noteq> None) w = []"
  proof -
    fix w :: string assume w: "set w \<subseteq> set seg"
    show "takeWhile (\<lambda>c. digit_value 10 c \<noteq> None) w = []"
    proof (cases w)
      case Nil then show ?thesis by simp
    next
      case (Cons c cs)
      with w have "c \<in> set seg" by auto
      with assms have "digit_value 10 c = None" by (auto simp: list_all_iff)
      with Cons show ?thesis by simp
    qed
  qed
  let ?t = "dropWhile is_whitespace seg"
  let ?u = "case ?t of c # cs \<Rightarrow> if c = CHR ''-'' \<or> c = CHR ''+'' then cs else ?t | [] \<Rightarrow> ?t"
  have t: "set ?t \<subseteq> set seg" by (rule set_dropWhileD[THEN subsetI]) 
  have "\<And>t::string. set (case t of c # cs \<Rightarrow> if c = CHR ''-'' \<or> c = CHR ''+'' then cs else t
                           | [] \<Rightarrow> t) \<subseteq> set t"
    by (auto split: list.splits)
  then have "set ?u \<subseteq> set ?t" .
  with t have "set ?u \<subseteq> set seg" by blast
  from sub[OF this] show ?thesis by (simp add: parseInt_def Let_def)
qed

text \<open>
  The rounding: an integer below \<open>2 ^ 53\<close> is a double; a rounded value is a multiple
  of the unit of its binade, at most half a unit from the integer; from \<open>2 ^ 1024\<close> on
  there is none.  A segment of decimal digits only is read whole.
\<close>

lemma bit_length_bounds: "0 < n \<Longrightarrow> 2 ^ (bit_length n - 1) \<le> n \<and> n < 2 ^ bit_length n"
proof (induction n rule: less_induct)
  case (less n)
  have bl: "bit_length n = Suc (bit_length (n div 2))"
    using less.prems by (subst bit_length.simps) simp
  show ?case
  proof (cases "n div 2 = 0")
    case True
    with less.prems have "n = 1" by (simp add: div_eq_0_iff)
    then show ?thesis by (simp add: bit_length.simps)
  next
    case False
    then have pos: "0 < n div 2" by simp
    have "n div 2 < n" using less.prems by simp
    from less.IH[OF this pos]
    have lo: "2 ^ (bit_length (n div 2) - 1) \<le> n div 2" and hi: "n div 2 < 2 ^ bit_length (n div 2)"
      by simp_all
    have b1: "1 \<le> bit_length (n div 2)"
      using pos by (subst bit_length.simps) simp
    then obtain k where k: "bit_length (n div 2) = Suc k" by (cases "bit_length (n div 2)") simp_all
    from lo k have "2 * 2 ^ k \<le> 2 * (n div 2)" by simp
    also have "\<dots> \<le> n" by simp
    finally have l: "2 ^ Suc k \<le> n" by simp
    from hi have "n < 2 * 2 ^ bit_length (n div 2)" by linarith
    with l show ?thesis unfolding bl k by simp
  qed
qed

lemma round_double_small: "n < 2 ^ 53 \<Longrightarrow> round_double n = Some n"
  by (simp add: round_double_def)

lemma round_double_overflow:
  assumes big: "2 ^ 1024 \<le> n"
  shows "round_double n = None"
proof -
  define e where "e = bit_length n - 53"
  define q where "q = n div 2 ^ e"
  define r where "r = n mod 2 ^ e"
  define q' where "q' = (if 2 ^ e < 2 * r \<or> (2 * r = 2 ^ e \<and> odd q) then q + 1 else q)"
  have "(2::nat) ^ 53 \<le> 2 ^ 1024" by (rule power_increasing) simp_all
  with big have n53: "\<not> n < 2 ^ 53" by linarith
  have pos: "0 < n" using big by (cases "n = 0") simp_all
  from bit_length_bounds[OF pos]
  have lo: "2 ^ (bit_length n - 1) \<le> n" and hi: "n < 2 ^ bit_length n" by simp_all
  from big hi have h: "(2::nat) ^ 1024 < 2 ^ bit_length n" by linarith
  have "1 < (2::nat)" by simp
  from power_less_imp_less_exp[OF this h] have bl: "1024 < bit_length n" .
  then have e: "bit_length n - 1 = 52 + e" unfolding e_def by simp
  have "(2::nat) ^ 52 * 2 ^ e \<le> n" using lo unfolding e by (simp add: power_add)
  then have "2 ^ 52 \<le> q" unfolding q_def by (simp add: less_eq_div_iff_mult_less_eq)
  moreover have "q \<le> q'" unfolding q'_def by simp
  ultimately have "2 ^ 52 \<le> q'" by linarith
  then have a: "(2::nat) ^ 52 * 2 ^ e \<le> q' * 2 ^ e" by (rule mult_le_mono1)
  have "(2::nat) ^ 1024 \<le> 2 ^ (52 + e)" using bl e by (intro power_increasing) simp_all
  then have b: "(2::nat) ^ 1024 \<le> 2 ^ 52 * 2 ^ e" by (simp only: power_add)
  from le_trans[OF b a] have over: "2 ^ 1024 \<le> q' * 2 ^ e" .
  have "round_double n = (if 2 ^ 1024 \<le> q' * 2 ^ e then None else Some (q' * 2 ^ e))"
    unfolding round_double_def Let_def q'_def q_def r_def e_def using n53 by (simp only: if_False)
  with over show ?thesis by (simp only: if_True)
qed

lemma round_double_nearest:
  assumes "round_double n = Some m"
  shows "2 ^ (bit_length n - 53) dvd m
         \<and> 2 * (if n \<le> m then m - n else n - m) \<le> 2 ^ (bit_length n - 53)
         \<and> m \<le> 2 ^ 53 * 2 ^ (bit_length n - 53)"
proof (cases "n < 2 ^ 53")
  case True
  with assms have m: "m = n" by (simp add: round_double_def)
  have "bit_length n - 53 = 0"
  proof (cases "n = 0")
    case True then show ?thesis by (simp add: bit_length.simps)
  next
    case False
    then have "2 ^ (bit_length n - 1) \<le> n" using bit_length_bounds[of n] by simp
    with True have "(2::nat) ^ (bit_length n - 1) < 2 ^ 53" by linarith
    moreover have "1 < (2::nat)" by simp
    ultimately have "bit_length n - 1 < 53" using power_less_imp_less_exp by blast
    then show ?thesis by simp
  qed
  with m True show ?thesis by simp
next
  case False
  define e where "e = bit_length n - 53"
  define q where "q = n div 2 ^ e"
  define r where "r = n mod 2 ^ e"
  define q' where "q' = (if 2 ^ e < 2 * r \<or> (2 * r = 2 ^ e \<and> odd q) then q + 1 else q)"
  have "round_double n = (if 2 ^ 1024 \<le> q' * 2 ^ e then None else Some (q' * 2 ^ e))"
    unfolding round_double_def Let_def q'_def q_def r_def e_def using False by (simp only: if_False)
  with assms have m: "m = q' * 2 ^ e" by (simp split: if_splits)
  have n: "n = q * 2 ^ e + r" unfolding q_def r_def by (rule div_mult_mod_eq[symmetric])
  have r: "r < 2 ^ e" unfolding r_def by simp
  have pos: "0 < n" using False by (cases "n = 0") simp_all
  from bit_length_bounds[OF pos] have hi: "n < 2 ^ bit_length n" by simp
  have "53 \<le> bit_length n"
  proof (rule ccontr)
    assume "\<not> 53 \<le> bit_length n"
    then have "(2::nat) ^ bit_length n \<le> 2 ^ 53" by (intro power_increasing) simp_all
    with hi False show False by linarith
  qed
  then have "bit_length n = 53 + e" unfolding e_def by simp
  with hi have "n < 2 ^ 53 * 2 ^ e" by (simp only: power_add)
  then have "q < 2 ^ 53" unfolding q_def by (simp add: less_mult_imp_div_less)
  then have "q' \<le> 2 ^ 53" unfolding q'_def by simp
  then have bound: "m \<le> 2 ^ 53 * 2 ^ e" unfolding m by (rule mult_le_mono1)
  have d: "2 ^ e dvd m" unfolding m by simp
  have near: "2 * (if n \<le> m then m - n else n - m) \<le> 2 ^ e"
  proof (cases "2 ^ e < 2 * r \<or> (2 * r = 2 ^ e \<and> odd q)")
    case True
    then have "m = q * 2 ^ e + 2 ^ e" unfolding m q'_def by (simp add: algebra_simps)
    with n r True show ?thesis by auto
  next
    case False
    then have "m = q * 2 ^ e" unfolding m q'_def by simp
    with n r False show ?thesis by auto
  qed
  from d near bound show ?thesis unfolding e_def by simp
qed

lemma parseInt_decimal:
  assumes ne: "seg \<noteq> []" and all: "list_all (\<lambda>c. digit_value 10 c \<noteq> None) seg"
  shows "parseInt seg 10 = (case round_double (digits_value 10 seg) of
                              None \<Rightarrow> Infinity | Some m \<Rightarrow> Num (int m))"
proof -
  from ne obtain c cs where seg: "seg = c # cs" by (cases seg) auto
  with all have d: "digit_value 10 c \<noteq> None" by simp
  have ws: "\<not> is_whitespace c"
    using d by (auto simp: is_whitespace_def digit_value_def Let_def split: if_splits)
  have sg: "c \<noteq> CHR ''-''" "c \<noteq> CHR ''+''"
    using d by (auto simp: digit_value_def)
  have tw: "takeWhile (\<lambda>c. digit_value 10 c \<noteq> None) seg = seg"
    using all by (simp add: list_all_iff)
  have t: "dropWhile is_whitespace seg = seg" using ws seg by simp
  have u: "(case seg of c # cs \<Rightarrow> if c = CHR ''-'' \<or> c = CHR ''+'' then cs else seg | [] \<Rightarrow> seg) = seg"
    by (simp add: seg sg)
  have neg: "(case seg of c # _ \<Rightarrow> c = CHR ''-'' | [] \<Rightarrow> False) = False"
    by (simp add: seg sg)
  from tw have tw': "takeWhile (\<lambda>c. \<exists>y. digit_value 10 c = Some y) seg = seg" by simp
  show ?thesis
    unfolding parseInt_def Let_def t u neg by (simp add: tw' ne split: option.splits)
qed

subsection \<open>Base58 and base64\<close>

text \<open>
  A base58 text has only letters of the alphabet; the base64 text of a number of
  bytes that is no multiple of three has the padding character, which is no such
  letter.
\<close>

lemma b58_digits_alphabet: "set (b58_digits n) \<subseteq> set ALPHABET"
proof (induction n rule: less_induct)
  case (less n)
  show ?case
  proof (cases "n = 0")
    case True
    then show ?thesis by (subst b58_digits.simps) simp
  next
    case False
    then have "n div 58 < n" by simp
    from less.IH[OF this] have ih: "set (b58_digits (n div 58)) \<subseteq> set ALPHABET" .
    have "length ALPHABET = 58" by (simp add: ALPHABET_def)
    then have "ALPHABET ! (n mod 58) \<in> set ALPHABET" by (intro nth_mem) simp
    with ih False show ?thesis by (subst b58_digits.simps) simp
  qed
qed

lemma bs58_encode_alphabet: "set (bs58_encode bs) \<subseteq> set ALPHABET"
proof -
  have "CHR ''1'' \<in> set ALPHABET" by (simp add: ALPHABET_def)
  with b58_digits_alphabet[of "nat_of_bytes bs"] show ?thesis
    by (auto simp: bs58_encode_def)
qed

lemma pad_not_base58: "CHR ''='' \<notin> set ALPHABET"
  by (simp add: ALPHABET_def)

lemma base64_has_pad: "length bs mod 3 \<noteq> 0 \<Longrightarrow> CHR ''='' \<in> set (bytesToBase64 bs)"
  by (induction bs rule: bytesToBase64.induct) auto

lemmas b58_eval = decodes_to_32_bytes_def bs58_decode_def ALPHABET_def b58_value_def
  bytes_of_nat.simps

subsection \<open>Addresses\<close>

lemma hex_address_no_colon:
  assumes "matches_hex_address v" shows "CHR '':'' \<notin> set v"
proof -
  let ?body = "if startsWith v ''0x'' then drop 2 v else v"
  from assms have all: "list_all is_hex_digit ?body"
    by (simp add: matches_hex_address_def Let_def)
  have body: "CHR '':'' \<notin> set ?body"
  proof
    assume "CHR '':'' \<in> set ?body"
    with all have "is_hex_digit (CHR '':'')" by (auto simp: list_all_iff)
    then show False by (simp add: is_hex_digit_def digit_value_def)
  qed
  show ?thesis
  proof (cases "startsWith v ''0x''")
    case True
    then obtain r where v: "v = ''0x'' @ r" by (auto simp: startsWith_def prefix_def)
    with body True show ?thesis by simp
  next
    case False
    with body show ?thesis by simp
  qed
qed

lemma icap_not_0x: "matches_icap v \<Longrightarrow> \<not> startsWith v ''0x''"
  by (auto simp: matches_icap_def startsWith_def prefix_def)

lemma normalizeAddress_0x: "startsWith (normalizeAddress a) ''0x''"
  by (simp add: normalizeAddress_def startsWith_def)

lemma valid_normalized_no_colon:
  assumes "ethers_isAddress L (normalizeAddress a)"
  shows "CHR '':'' \<notin> set (normalizeAddress a)"
proof -
  from assms have "matches_hex_address (normalizeAddress a) \<or> matches_icap (normalizeAddress a)"
    by (auto simp: ethers_isAddress_def split: if_splits)
  with icap_not_0x normalizeAddress_0x have "matches_hex_address (normalizeAddress a)" by blast
  then show ?thesis by (rule hex_address_no_colon)
qed

lemma isAddress_plain_hex:
  "matches_hex_address v \<Longrightarrow> startsWith v ''0x'' \<Longrightarrow> \<not> mixed_case v \<Longrightarrow> ethers_isAddress L v"
  by (simp add: ethers_isAddress_def)

lemma didToAddress_ethr_3:
  "CHR '':'' \<notin> set a \<Longrightarrow> didToAddress (''did:ethr:'' @ a) = Inr (toLowerCase a)"
  by (simp add: didToAddress_def startsWith_def split_no_sep)

lemma didToAddress_ethr_4:
  "CHR '':'' \<notin> set n \<Longrightarrow> CHR '':'' \<notin> set a \<Longrightarrow>
     didToAddress (''did:ethr:'' @ n @ '':'' @ a) = Inr (toLowerCase a)"
  by (simp add: didToAddress_def startsWith_def split_no_sep split_append_sep)

lemma split_ethr_3:
  "CHR '':'' \<notin> set a \<Longrightarrow> split (CHR '':'') (''did:ethr:'' @ a) = [''did'', ''ethr'', a]"
  by (simp add: split_no_sep)

lemma split_ethr_4:
  "CHR '':'' \<notin> set n \<Longrightarrow> CHR '':'' \<notin> set a \<Longrightarrow>
     split (CHR '':'') (''did:ethr:'' @ n @ '':'' @ a) = [''did'', ''ethr'', n, a]"
  by (simp add: split_no_sep split_append_sep)

text \<open>
  A hexadecimal address stays one when it is normalized, and has no capital left; a
  segment with a colon in it makes a DID of more than four segments.
\<close>

lemma hex_chars: "is_hex_digit c \<Longrightarrow> c \<in> set ''0123456789abcdefABCDEF''"
proof -
  assume h: "is_hex_digit c"
  define n where "n = (of_char c :: nat)"
  have c: "c = char_of n" by (simp add: n_def)
  from h have "(48 \<le> n \<and> n \<le> 57) \<or> (97 \<le> n \<and> n \<le> 102) \<or> (65 \<le> n \<and> n \<le> 70)"
    by (auto simp: is_hex_digit_def digit_value_def Let_def n_def split: if_splits)
  then have "n \<in> set [48, 49, 50, 51, 52, 53, 54, 55, 56, 57, 97, 98, 99, 100, 101, 102,
                       65, 66, 67, 68, 69, 70]"
    by simp arith
  then have "c \<in> set (map char_of [48 :: nat, 49, 50, 51, 52, 53, 54, 55, 56, 57, 97, 98, 99, 100, 101, 102,
                       65, 66, 67, 68, 69, 70])"
    unfolding c by (simp only: set_map image_eqI)
  also have "map char_of [48 :: nat, 49, 50, 51, 52, 53, 54, 55, 56, 57, 97, 98, 99, 100, 101, 102,
                       65, 66, 67, 68, 69, 70] = ''0123456789abcdefABCDEF''"
    by code_simp
  finally show ?thesis .
qed

lemma lower_hex_map: "map lower_char ''0123456789abcdefABCDEF'' = ''0123456789abcdefabcdef''"
  by code_simp

lemma lower_hex: "is_hex_digit c \<Longrightarrow> is_hex_digit (lower_char c) \<and> lower_char c \<notin> set ''ABCDEF''"
proof -
  assume "is_hex_digit c"
  then have "c \<in> set ''0123456789abcdefABCDEF''" by (rule hex_chars)
  then have "lower_char c \<in> set (map lower_char ''0123456789abcdefABCDEF'')"
    by (simp only: set_map imageI)
  then have "lower_char c \<in> set ''0123456789abcdef''"
    unfolding lower_hex_map by auto
  then show ?thesis by (auto simp: is_hex_digit_def digit_value_def)
qed

lemma lower_x: "lower_char c = CHR ''x'' \<Longrightarrow> \<not> is_hex_digit c"
proof
  assume l: "lower_char c = CHR ''x''" and "is_hex_digit c"
  from lower_hex[OF this(2)] have "is_hex_digit (lower_char c)" by simp
  with l show False by (simp add: is_hex_digit_def digit_value_def)
qed

lemma normalize_hex_address:
  assumes "matches_hex_address a"
  shows "matches_hex_address (normalizeAddress a) \<and> \<not> mixed_case (normalizeAddress a)"
proof -
  let ?body = "if startsWith a ''0x'' then drop 2 a else a"
  from assms have len: "length ?body = 40" and all: "list_all is_hex_digit ?body"
    by (simp_all add: matches_hex_address_def Let_def)
  have lb: "list_all is_hex_digit (toLowerCase ?body)"
       "\<forall>c \<in> set (toLowerCase ?body). c \<notin> set ''ABCDEF''"
    using all lower_hex by (auto simp: toLowerCase_def list_all_iff)
  have n: "normalizeAddress a = ''0x'' @ toLowerCase ?body"
  proof (cases "startsWith a ''0x''")
    case True
    then obtain r where a: "a = ''0x'' @ r" by (auto simp: startsWith_def prefix_def)
    show ?thesis by (simp add: a normalizeAddress_def toLowerCase_def startsWith_def lower_char_0x)
  next
    case False
    from len False obtain c d r where a: "a = c # d # r" by (cases a; cases "tl a") auto
    with all False have cd: "is_hex_digit c" "is_hex_digit d" by simp_all
    then have "lower_char d \<noteq> CHR ''x''" using lower_x by blast
    then show ?thesis using False
      by (simp add: a normalizeAddress_def toLowerCase_def startsWith_def)
  qed
  have m: "matches_hex_address (''0x'' @ toLowerCase ?body)"
    using len lb(1) by (simp add: matches_hex_address_def startsWith_def toLowerCase_def)
  have "\<not> list_ex (\<lambda>c. c \<in> set ''ABCDEF'') (''0x'' @ toLowerCase ?body)"
    using lb(2) by (auto simp: list_ex_iff)
  then have "\<not> mixed_case (''0x'' @ toLowerCase ?body)" by (simp add: mixed_case_def)
  with m show ?thesis unfolding n by simp
qed

lemma valid_hex_normalized:
  assumes "ethers_isAddress L a" "\<not> matches_icap a"
  shows "ethers_isAddress L (normalizeAddress a)"
proof -
  from assms have "matches_hex_address a" by (auto simp: ethers_isAddress_def split: if_splits)
  from normalize_hex_address[OF this] normalizeAddress_0x[of a] show ?thesis
    by (simp add: isAddress_plain_hex)
qed

lemma didToAddress_ethr_long:
  "CHR '':'' \<in> set n \<Longrightarrow>
     didToAddress (''did:ethr:'' @ n @ '':'' @ a) = Inl (Error ''Invalid did:ethr format'')
     \<and> 4 < length (split (CHR '':'') (''did:ethr:'' @ n @ '':'' @ a))"
proof -
  assume "CHR '':'' \<in> set n"
  then have "0 < length (filter (\<lambda>x. x = CHR '':'') n)" by (simp add: filter_empty_conv)
  then have "4 < length (split (CHR '':'') (''did:ethr:'' @ n @ '':'' @ a))"
    by (simp add: split_length)
  then show ?thesis by (simp add: didToAddress_def startsWith_def Let_def del: split.simps)
qed

lemma addressToEthrDid_eq:
  assumes "ethers_isAddress L (normalizeAddress addr)"
  shows "addressToEthrDid L addr chainId network
           = Inr (case ethr_segment chainId network of
                    None \<Rightarrow> ''did:ethr:'' @ normalizeAddress addr
                  | Some seg \<Rightarrow> ''did:ethr:'' @ seg @ '':'' @ normalizeAddress addr)"
  using assms
  by (cases network; cases chainId)
     (auto simp: addressToEthrDid_def ethr_segment_def Let_def truthy_def chain_truthy_def)

subsection \<open>The validators return a boolean\<close>

text \<open>
  Each validator catches what it throws: its result is \<open>Inr\<close> of the predicate the
  specification names.
\<close>

lemma isValidSolanaAddress_eq: "isValidSolanaAddress s = Inr (decodes_to_32_bytes s)"
  by (simp add: isValidSolanaAddress_def decodes_to_32_bytes_def try_catch_def split: sum.splits)

lemma isValidEvmAddress_eq: "isValidEvmAddress L s = Inr (ethers_isAddress L s)"
  by (simp add: isValidEvmAddress_def try_catch_def)

lemma isValidSolanaDid_eq: "isValidSolanaDid d = Inr (valid_solana_did d)"
  by (simp add: isValidSolanaDid_def didToWalletAddress_def valid_solana_did_def try_catch_def startsWith_def
      isValidSolanaAddress_eq Let_def)

lemma isValidEvmDid_eq: "isValidEvmDid L d = Inr (valid_evm_did L d)"
  by (simp add: isValidEvmDid_def valid_evm_did_def try_catch_def split: sum.splits)

lemma detectDidProvider_eq: "detectDidProvider L did = Inr (detect_spec L did)"
  by (simp add: detectDidProvider_def detect_spec_def startsWith_def
      isValidSolanaAddress_eq isValidEvmAddress_eq)

subsection \<open>Credential resolution\<close>

lemma or_else_Inr: "or_else (Inr a) (Inr b) = Inr (a \<or> b)"
  by (simp add: or_else_def)

lemma js_or_read_var: "truthy (js_or (env a) (env b)) = truthy (read_var env a b)"
  "value_of (js_or (env a) (env b)) = value_of (read_var env a b)"
  by (auto simp: js_or_def read_var_def truthy_def value_of_def split: option.splits)

lemma read_var_cases: "read_var env a b = env a \<or> read_var env a b = env b"
  by (auto simp: read_var_def split: option.splits)

lemma truthy_read_var: "truthy (read_var env a b) = (truthy (env a) \<or> truthy (env b))"
  by (auto simp: read_var_def truthy_def split: option.splits)

lemma solana_branch_eq:
  "solana_branch env =
     (if truthy (read_var env ''AGENT_SOLANA_DID'' ''AGENT_DID'')
         \<and> truthy (read_var env ''AGENT_SOLANA_PRIVATE_KEY'' ''AGENT_PRIVATE_KEY'')
         \<and> (valid_solana_did (value_of (read_var env ''AGENT_SOLANA_DID'' ''AGENT_DID''))
            \<or> decodes_to_32_bytes (value_of (read_var env ''AGENT_SOLANA_DID'' ''AGENT_DID'')))
      then Some \<lparr>c_did = value_of (read_var env ''AGENT_SOLANA_DID'' ''AGENT_DID''),
                 c_privateKey = value_of (read_var env ''AGENT_SOLANA_PRIVATE_KEY'' ''AGENT_PRIVATE_KEY''),
                 c_provider = Solana\<rparr>
      else None)"
  by (auto simp: solana_branch_def truthy_def value_of_def split: option.splits)

lemma evm_branch_eq:
  "evm_branch L env =
     (if truthy (read_var env ''AGENT_EVM_DID'' ''AGENT_DID'')
         \<and> truthy (read_var env ''AGENT_EVM_PRIVATE_KEY'' ''AGENT_PRIVATE_KEY'')
         \<and> (valid_evm_did L (value_of (read_var env ''AGENT_EVM_DID'' ''AGENT_DID''))
            \<or> ethers_isAddress L (value_of (read_var env ''AGENT_EVM_DID'' ''AGENT_DID'')))
      then Some \<lparr>c_did = value_of (read_var env ''AGENT_EVM_DID'' ''AGENT_DID''),
                 c_privateKey = value_of (read_var env ''AGENT_EVM_PRIVATE_KEY'' ''AGENT_PRIVATE_KEY''),
                 c_provider = Evm\<rparr>
      else None)"
  by (auto simp: evm_branch_def truthy_def value_of_def split: option.splits)

lemma key_branch_eq:
  "key_branch env =
     (if truthy (env ''AGENT_DID'') \<and> truthy (env ''AGENT_PRIVATE_KEY'')
         \<and> startsWith (value_of (env ''AGENT_DID'')) ''did:key:''
      then Some \<lparr>c_did = value_of (env ''AGENT_DID''),
                 c_privateKey = value_of (env ''AGENT_PRIVATE_KEY''), c_provider = Key\<rparr>
      else None)"
  by (auto simp: key_branch_def truthy_def value_of_def startsWith_def split: option.splits)

lemma solana_block:
  "(if (hint = Some Solana \<or> hint = None)
       \<and> truthy (js_or (env ''AGENT_SOLANA_DID'') (env ''AGENT_DID''))
       \<and> truthy (js_or (env ''AGENT_SOLANA_PRIVATE_KEY'') (env ''AGENT_PRIVATE_KEY''))
    then or_else (isValidSolanaDid (value_of (js_or (env ''AGENT_SOLANA_DID'') (env ''AGENT_DID''))))
                 (isValidSolanaAddress (value_of (js_or (env ''AGENT_SOLANA_DID'') (env ''AGENT_DID''))))
    else Inr False)
   = Inr (hint_allows hint Solana \<and> solana_branch env \<noteq> None)"
  by (auto simp: isValidSolanaDid_eq isValidSolanaAddress_eq or_else_Inr js_or_read_var
      solana_branch_eq hint_allows_def)

lemma solana_cred:
  "solana_branch env \<noteq> None \<Longrightarrow>
     Some \<lparr>c_did = value_of (js_or (env ''AGENT_SOLANA_DID'') (env ''AGENT_DID'')),
           c_privateKey = value_of (js_or (env ''AGENT_SOLANA_PRIVATE_KEY'') (env ''AGENT_PRIVATE_KEY'')),
           c_provider = Solana\<rparr> = solana_branch env"
  by (simp add: js_or_read_var solana_branch_eq split: if_splits)

lemma evm_block:
  "(if (hint = Some Evm \<or> hint = None)
       \<and> truthy (js_or (env ''AGENT_EVM_DID'') (env ''AGENT_DID''))
       \<and> truthy (js_or (env ''AGENT_EVM_PRIVATE_KEY'') (env ''AGENT_PRIVATE_KEY''))
    then or_else (isValidEvmDid L (value_of (js_or (env ''AGENT_EVM_DID'') (env ''AGENT_DID''))))
                 (isValidEvmAddress L (value_of (js_or (env ''AGENT_EVM_DID'') (env ''AGENT_DID''))))
    else Inr False)
   = Inr (hint_allows hint Evm \<and> evm_branch L env \<noteq> None)"
  by (auto simp: isValidEvmDid_eq isValidEvmAddress_eq or_else_Inr js_or_read_var
      evm_branch_eq hint_allows_def)

lemma evm_cred:
  "evm_branch L env \<noteq> None \<Longrightarrow>
     Some \<lparr>c_did = value_of (js_or (env ''AGENT_EVM_DID'') (env ''AGENT_DID'')),
           c_privateKey = value_of (js_or (env ''AGENT_EVM_PRIVATE_KEY'') (env ''AGENT_PRIVATE_KEY'')),
           c_provider = Evm\<rparr> = evm_branch L env"
  by (simp add: js_or_read_var evm_branch_eq split: if_splits)

lemma key_block:
  "(if (hint = Some Key \<or> hint = None) \<and> truthy (env ''AGENT_DID'')
       \<and> truthy (env ''AGENT_PRIVATE_KEY'')
       \<and> startsWith (value_of (env ''AGENT_DID'')) ''did:key:''
    then Inr (Some \<lparr>c_did = value_of (env ''AGENT_DID''),
                    c_privateKey = value_of (env ''AGENT_PRIVATE_KEY''), c_provider = Key\<rparr>)
    else Inr None)
   = Inr (if hint_allows hint Key then key_branch env else None)"
  by (auto simp: key_branch_eq hint_allows_def)

lemma first_of_3:
  "first_of [a, b, c] = (if a \<noteq> None then a else if b \<noteq> None then b else c)"
  by (simp add: first_of_def)

lemma getCredentialsFromEnv_eq:
  "getCredentialsFromEnv L env hint = Inr (resolve_spec L env hint)"
proof -
  let ?S = "hint_allows hint Solana \<and> solana_branch env \<noteq> None"
  let ?E = "hint_allows hint Evm \<and> evm_branch L env \<noteq> None"
  have code: "getCredentialsFromEnv L env hint =
      Inr (if ?S then solana_branch env
           else if ?E then evm_branch L env
           else if hint_allows hint Key then key_branch env else None)"
  proof (cases ?S)
    case True
    then have b: "?S = True" by simp
    show ?thesis
      unfolding getCredentialsFromEnv_def Let_def solana_block b
      using True by (simp add: solana_cred)
  next
    case nS: False
    then have b: "?S = False" by simp
    show ?thesis
    proof (cases ?E)
      case True
      then have c: "?E = True" by simp
      show ?thesis
        unfolding getCredentialsFromEnv_def Let_def solana_block evm_block b c
        using True by (simp add: evm_cred)
    next
      case False
      then have c: "?E = False" by simp
      show ?thesis
        unfolding getCredentialsFromEnv_def Let_def solana_block evm_block key_block b c
        by simp
    qed
  qed
  have spec: "resolve_spec L env hint =
      (if ?S then solana_branch env
       else if ?E then evm_branch L env
       else if hint_allows hint Key then key_branch env else None)"
    unfolding resolve_spec_def first_of_3
    by (cases "solana_branch env"; cases "evm_branch L env"; simp)
  show ?thesis unfolding code spec ..
qed

lemma generic_solana_resolves:
  assumes "env ''AGENT_DID'' = Some d" "valid_solana_did d"
      and "env ''AGENT_PRIVATE_KEY'' = Some k" "k \<noteq> []"
      and "env ''AGENT_SOLANA_DID'' = None" "env ''AGENT_SOLANA_PRIVATE_KEY'' = None"
  shows "getCredentialsFromEnv L env None
           = Inr (Some \<lparr>c_did = d, c_privateKey = k, c_provider = Solana\<rparr>)"
proof -
  from assms(2) have "d \<noteq> []" by (auto simp: valid_solana_did_def)
  with assms have "solana_branch env = Some \<lparr>c_did = d, c_privateKey = k, c_provider = Solana\<rparr>"
    by (simp add: solana_branch_def read_var_def)
  then show ?thesis
    by (simp add: getCredentialsFromEnv_eq resolve_spec_def first_of_3 hint_allows_def)
qed

lemma solana_branch_Some:
  assumes "solana_branch env = Some c"
  shows "c_provider c = Solana \<and> c_privateKey c \<noteq> []
         \<and> Some (c_privateKey c) \<in> set (map env key_vars)
         \<and> (valid_solana_did (c_did c) \<or> decodes_to_32_bytes (c_did c))"
  using assms read_var_cases[of env "''AGENT_SOLANA_PRIVATE_KEY''" "''AGENT_PRIVATE_KEY''"]
  by (auto simp: solana_branch_def key_vars_def split: option.splits if_splits)

lemma evm_branch_Some:
  assumes "evm_branch L env = Some c"
  shows "c_provider c = Evm \<and> c_privateKey c \<noteq> []
         \<and> Some (c_privateKey c) \<in> set (map env key_vars)
         \<and> (valid_evm_did L (c_did c) \<or> ethers_isAddress L (c_did c))"
  using assms read_var_cases[of env "''AGENT_EVM_PRIVATE_KEY''" "''AGENT_PRIVATE_KEY''"]
  by (auto simp: evm_branch_def key_vars_def split: option.splits if_splits)

lemma key_branch_Some:
  assumes "key_branch env = Some c"
  shows "c_provider c = Key \<and> c_privateKey c \<noteq> []
         \<and> Some (c_privateKey c) \<in> set (map env key_vars)
         \<and> prefix ''did:key:'' (c_did c)"
  using assms
  by (auto simp: key_branch_def key_vars_def split: option.splits if_splits)

lemma resolve_spec_Some:
  assumes "resolve_spec L env hint = Some c"
  shows "solana_branch env = Some c \<or> evm_branch L env = Some c \<or> key_branch env = Some c"
  using assms by (auto simp: resolve_spec_def first_of_3 split: if_splits)

lemma returned_credential_checked:
  assumes "getCredentialsFromEnv L env hint = Inr (Some c)"
  shows "c_privateKey c \<noteq> [] \<and> Some (c_privateKey c) \<in> set (map env key_vars)
         \<and> (case c_provider c of
               Solana \<Rightarrow> valid_solana_did (c_did c) \<or> decodes_to_32_bytes (c_did c)
             | Evm \<Rightarrow> valid_evm_did L (c_did c) \<or> ethers_isAddress L (c_did c)
             | Key \<Rightarrow> prefix ''did:key:'' (c_did c))"
proof -
  from assms have "resolve_spec L env hint = Some c" by (simp add: getCredentialsFromEnv_eq)
  from resolve_spec_Some[OF this] show ?thesis
    using solana_branch_Some[of env c] evm_branch_Some[of L env c] key_branch_Some[of env c]
    by auto
qed

lemma branches_ignore_key_text:
  assumes same: "\<forall>v. v \<notin> set key_vars \<longrightarrow> env' v = env v"
      and keys: "\<forall>v \<in> set key_vars. truthy (env' v) = truthy (env v)"
  shows "map_option did_and_provider (solana_branch env') = map_option did_and_provider (solana_branch env)"
    and "map_option did_and_provider (evm_branch L env') = map_option did_and_provider (evm_branch L env)"
    and "map_option did_and_provider (key_branch env') = map_option did_and_provider (key_branch env)"
proof -
  from same have d: "env' ''AGENT_DID'' = env ''AGENT_DID''"
      "env' ''AGENT_SOLANA_DID'' = env ''AGENT_SOLANA_DID''"
      "env' ''AGENT_EVM_DID'' = env ''AGENT_EVM_DID''"
    by (simp_all add: key_vars_def)
  have rd: "read_var env' ''AGENT_SOLANA_DID'' ''AGENT_DID'' = read_var env ''AGENT_SOLANA_DID'' ''AGENT_DID''"
      "read_var env' ''AGENT_EVM_DID'' ''AGENT_DID'' = read_var env ''AGENT_EVM_DID'' ''AGENT_DID''"
    unfolding read_var_def d by (rule refl)+
  from keys have k: "truthy (env' ''AGENT_PRIVATE_KEY'') = truthy (env ''AGENT_PRIVATE_KEY'')"
      "truthy (env' ''AGENT_SOLANA_PRIVATE_KEY'') = truthy (env ''AGENT_SOLANA_PRIVATE_KEY'')"
      "truthy (env' ''AGENT_EVM_PRIVATE_KEY'') = truthy (env ''AGENT_EVM_PRIVATE_KEY'')"
    by (simp_all add: key_vars_def)
  show "map_option did_and_provider (solana_branch env') = map_option did_and_provider (solana_branch env)"
    by (simp add: solana_branch_eq truthy_read_var k rd did_and_provider_def)
  show "map_option did_and_provider (evm_branch L env') = map_option did_and_provider (evm_branch L env)"
    by (simp add: evm_branch_eq truthy_read_var k rd did_and_provider_def)
  show "map_option did_and_provider (key_branch env') = map_option did_and_provider (key_branch env)"
    by (simp add: key_branch_eq k d did_and_provider_def)
qed

lemma map_option_eq_None_iff: "map_option f a = map_option f b \<Longrightarrow> (a = None) = (b = None)"
  by (cases a; cases b) auto

lemma resolve_ignores_key_text:
  assumes same: "\<forall>v. v \<notin> set key_vars \<longrightarrow> env' v = env v"
      and keys: "\<forall>v \<in> set key_vars. truthy (env' v) = truthy (env v)"
  shows "map_option did_and_provider (resolve_spec L env' hint)
         = map_option did_and_provider (resolve_spec L env hint)"
proof -
  have s: "map_option did_and_provider (solana_branch env')
             = map_option did_and_provider (solana_branch env)"
    by (rule branches_ignore_key_text(1)[OF same keys])
  have e: "map_option did_and_provider (evm_branch L env')
             = map_option did_and_provider (evm_branch L env)"
    by (rule branches_ignore_key_text(2)[OF same keys])
  have k: "map_option did_and_provider (key_branch env')
             = map_option did_and_provider (key_branch env)"
    by (rule branches_ignore_key_text(3)[OF same keys])
  note n = s[THEN map_option_eq_None_iff] e[THEN map_option_eq_None_iff]
  show ?thesis
    unfolding resolve_spec_def first_of_3 using s e k n by auto
qed

subsection \<open>Signing and the payload\<close>

lemma nacl_sign_detached_64:
  "length key = 64 \<Longrightarrow>
     \<exists>signature. nacl_sign_detached P msg key = Inr signature \<and> length signature = 64"
  by (simp add: nacl_sign_detached_def Let_def)

lemma signSolanaMessage_undecodable:
  "bs58_decode privateKeyBase58 = Inl e \<Longrightarrow> signSolanaMessage P message privateKeyBase58 = Inl e"
  by (simp add: signSolanaMessage_def)


lemma generateNonce_not_base58: "generateNonce P \<noteq> bs58_encode bytes"
proof
  assume eq: "generateNonce P = bs58_encode bytes"
  have "length (webcrypto_getRandomValues P 32) mod 3 \<noteq> 0"
    by (simp add: webcrypto_getRandomValues_def)
  then have "CHR ''='' \<in> set (generateNonce P)"
    unfolding generateNonce_def by (rule base64_has_pad)
  with eq bs58_encode_alphabet[of bytes] pad_not_base58 show False by auto
qed

lemma generate_auth_payload_nonce:
  assumes "generate_auth_payload L P env now hint = Inr payload"
  shows "p_nonce payload = generateNonce P"
  using assms
  by (auto simp: generate_auth_payload_def try_catch_def Let_def
      split: sum.splits option.splits)

text \<open>
  The callback that also takes a DID and a key picks the nonce by provider: base58 of
  tweetnacl's random bytes for Solana, base64 otherwise.
\<close>

lemma generate_auth_payload_args_nonce:
  assumes "generate_auth_payload_args L P env now providedDid providedKey hint = Inr payload"
  shows "p_nonce payload =
           (if p_provider payload = Solana then bs58_encode (nacl_randomBytes P 32)
            else bytesToBase64 (webcrypto_getRandomValues P 32))"
  using assms
  by (auto simp: generate_auth_payload_args_def try_catch_def Let_def generateSolanaNonce_def
      generateEvmNonce_def generateNonce_def
      split: sum.splits option.splits prod.splits if_splits)

subsection \<open>The sample inputs\<close>

lemma sample_address_valid: "ethers_isAddress L ''0x742d35cc6634c0532925a3b844bc9e7595f0beb0''"
proof (rule isAddress_plain_hex)
  show "matches_hex_address ''0x742d35cc6634c0532925a3b844bc9e7595f0beb0''" by code_simp
  show "startsWith ''0x742d35cc6634c0532925a3b844bc9e7595f0beb0'' ''0x''" by code_simp
  show "\<not> mixed_case ''0x742d35cc6634c0532925a3b844bc9e7595f0beb0''" by code_simp
qed

lemma sample_address_normal:
  "normalizeAddress ''742D35CC6634C0532925A3B844BC9E7595F0BEB0''
     = ''0x742d35cc6634c0532925a3b844bc9e7595f0beb0''"
  "normalizeAddress ''0x742d35cc6634c0532925a3b844bc9e7595f0beb0''
     = ''0x742d35cc6634c0532925a3b844bc9e7595f0beb0''"
  by code_simp+

lemma short_address_facts:
  "\<not> decodes_to_32_bytes ''0x742d35Cc6634C0532925a3b844Bc9e7595f0bEb''"
  "\<not> matches_hex_address ''0x742d35Cc6634C0532925a3b844Bc9e7595f0bEb''"
  "\<not> matches_icap ''0x742d35Cc6634C0532925a3b844Bc9e7595f0bEb''"
  by (simp_all add: b58_eval matches_hex_address_def matches_icap_def startsWith_def)

lemma garbage_facts:
  "\<not> decodes_to_32_bytes ''garbage''"
  "\<not> matches_hex_address ''garbage''"
  "\<not> matches_icap ''garbage''"
  by (simp_all add: b58_eval matches_hex_address_def matches_icap_def startsWith_def)

lemma full_address_facts:
  "\<not> decodes_to_32_bytes ''0x742d35cc6634c0532925a3b844bc9e7595f0beb0''"
  by (simp add: b58_eval)

lemma detect_short_address:
  "detectDidProvider L ''0x742d35Cc6634C0532925a3b844Bc9e7595f0bEb'' = Inr Key"
  by (simp add: detectDidProvider_eq detect_spec_def short_address_facts ethers_isAddress_def)

lemma detect_garbage: "detectDidProvider L ''garbage'' = Inr Key"
  by (simp add: detectDidProvider_eq detect_spec_def garbage_facts ethers_isAddress_def)

lemma detect_full_address:
  "detectDidProvider L ''0x742d35cc6634c0532925a3b844bc9e7595f0beb0'' = Inr Evm"
  by (simp add: detectDidProvider_eq detect_spec_def full_address_facts sample_address_valid)

lemma sample_did_valid: "valid_solana_did sample_solana_did"
  by (simp add: valid_solana_did_def sample_solana_did_def b58_eval)

lemma sample_key_decodes:
  "\<exists>keyBytes. bs58_decode sample_solana_key = Inr keyBytes \<and> length keyBytes = 64"
  by (simp add: sample_solana_key_def b58_eval)

lemma sample_key_nonempty: "sample_solana_key \<noteq> []"
  by (simp add: sample_solana_key_def)

lemma abc_decodes: "bs58_decode ''abc'' = Inr [1, 185, 123]"
  by (simp add: b58_eval)

lemma sample_env_lookups:
  "sample_env ''AGENT_DID'' = Some sample_solana_did"
  "sample_env ''AGENT_PRIVATE_KEY'' = Some sample_solana_key"
  "sample_env ''AGENT_SOLANA_DID'' = None"
  "sample_env ''AGENT_SOLANA_PRIVATE_KEY'' = None"
  by (simp_all add: sample_env_def)

lemma bad_key_env_lookups:
  "bad_key_env ''AGENT_DID'' = Some sample_solana_did"
  "bad_key_env ''AGENT_PRIVATE_KEY'' = Some ''abc''"
  "bad_key_env ''AGENT_SOLANA_DID'' = None"
  "bad_key_env ''AGENT_SOLANA_PRIVATE_KEY'' = None"
  by (simp_all add: bad_key_env_def)

lemma bad_key_rejected:
  "\<exists>c e. getCredentialsFromEnv L bad_key_env None = Inr (Some c) \<and> c_provider c = Solana
         \<and> c_privateKey c = ''abc''
         \<and> signSolanaMessage P message (c_privateKey c) = Inl e"
proof -
  have "getCredentialsFromEnv L bad_key_env None
          = Inr (Some \<lparr>c_did = sample_solana_did, c_privateKey = ''abc'', c_provider = Solana\<rparr>)"
    by (rule generic_solana_resolves) (simp_all add: bad_key_env_lookups sample_did_valid)
  moreover have "signSolanaMessage P message ''abc''
          = Inl (Error ''Invalid private key length. Expected 64 bytes for Solana keypair.'')"
    by (simp add: signSolanaMessage_def abc_decodes)
  ultimately show ?thesis by simp
qed

lemma sample_payload:
  "\<exists>payload. generate_auth_payload L P sample_env 1700000000000 None = Inr payload
     \<and> p_provider payload = Solana \<and> p_did payload = sample_solana_did"
proof -
  have c: "getCredentialsFromEnv L sample_env None
          = Inr (Some \<lparr>c_did = sample_solana_did, c_privateKey = sample_solana_key,
                       c_provider = Solana\<rparr>)"
    by (rule generic_solana_resolves)
       (simp_all add: sample_env_lookups sample_did_valid sample_key_nonempty)
  from sample_key_decodes obtain keyBytes where
    k: "bs58_decode sample_solana_key = Inr keyBytes" "length keyBytes = 64" by blast
  have "\<And>message. \<exists>sg. signSolanaMessage P message sample_solana_key = Inr sg"
    using k by (simp add: signSolanaMessage_def nacl_sign_detached_def Let_def)
  then obtain sg where
    "signSolanaMessage P (sample_solana_did @ '':'' @ int_toString 10 (int 1700000000000) @ '':''
        @ generateNonce P) sample_solana_key = Inr sg"
    by blast
  with c show ?thesis
    by (simp add: generate_auth_payload_def try_catch_def sign_for_def)
qed

lemma extractPublicKeyFromDID_readme:
  "extractPublicKeyFromDID ''did:key:z6MkhaXgBZDvotDkL5257faiztiGiC2QtKLGpbnnEGta2doK'' = None"
  by (simp add: extractPublicKeyFromDID_def startsWith_def slice_def)

lemma icap_sample_valid: "ethers_isAddress (icap_lib g) ''XE65GB6LDNXYOFTX0NSV3FUWKOWIXAMJK36''"
  by (simp add: ethers_isAddress_def matches_hex_address_def matches_icap_def startsWith_def
      icap_lib_def iban_checksum_def digit_value_def is_alnum_def is_hex_digit_def digits_value_def
      nat_digits.simps digit_char_def Let_def)

lemma icap_sample_normal_invalid:
  "\<not> ethers_isAddress L (normalizeAddress ''XE65GB6LDNXYOFTX0NSV3FUWKOWIXAMJK36'')"
proof -
  have n: "normalizeAddress ''XE65GB6LDNXYOFTX0NSV3FUWKOWIXAMJK36'' = ''0xxe65gb6ldnxyoftx0nsv3fuwkowixamjk36''"
    by code_simp
  show ?thesis unfolding n
    by (simp add: ethers_isAddress_def matches_hex_address_def matches_icap_def startsWith_def)
qed

lemma upper_sample_valid: "ethers_isAddress L ''742D35CC6634C0532925A3B844BC9E7595F0BEB0''"
  by (simp add: ethers_isAddress_def matches_hex_address_def startsWith_def is_hex_digit_def
      digit_value_def mixed_case_def)

lemma upper_sample_normal:
  "normalizeAddress ''742D35CC6634C0532925A3B844BC9E7595F0BEB0''
     = ''0x742d35cc6634c0532925a3b844bc9e7595f0beb0''"
  by code_simp

lemma samples_not_icap:
  "\<not> matches_icap ''742D35CC6634C0532925A3B844BC9E7595F0BEB0''"
  "\<not> matches_icap ''0x742d35cc6634c0532925a3b844bc9e7595f0beb0''"
  by (simp_all add: matches_icap_def startsWith_def)

lemma sample_segments:
  "ethr_segment (Some (ChainNum (Num 137))) None = Some ''0x89''"
  "ethr_segment (Some (ChainStr ''a:b'')) (Some ''sepolia'') = Some ''sepolia''"
  "ethr_segment None None = None"
  "ethr_segment (Some (ChainNum (Num 1))) (Some ''mainnet'') = None"
  "ethr_segment None (Some ''eip155:137'') = Some ''eip155:137''"
  "ethr_segment (Some (ChainStr ''a:b'')) None = Some ''a:b''"
  by (simp_all add: ethr_segment_def truthy_def chain_truthy_def hexChainId_def int_toString_def
      nat_digits.simps digit_char_def)

lemma long_decimal_facts:
  "2 ^ 1024 \<le> digits_value 10 long_decimal"
  "list_all (\<lambda>c. digit_value 10 c \<noteq> None) long_decimal"
  "long_decimal \<noteq> []"
  "CHR '':'' \<notin> set long_decimal"
  by (simp_all add: long_decimal_def digits_value_def digit_value_def)

lemma split_pkh_long:
  "split (CHR '':'') (''did:pkh:eip155:'' @ long_decimal @ '':0xab'')
     = [''did'', ''pkh'', ''eip155'', long_decimal, ''0xab'']"
  using long_decimal_facts(4) by (simp add: split_append_sep)

lemma split_pkh_samples:
  "split (CHR '':'') ''did:pkh:eip155:mainnet:0x742d35cc6634c0532925a3b844bc9e7595f0beb0''
     = [''did'', ''pkh'', ''eip155'', ''mainnet'', ''0x742d35cc6634c0532925a3b844bc9e7595f0beb0'']"
  "split (CHR '':'') ''did:pkh:eip155:137:0x742d35cc6634c0532925a3b844bc9e7595f0beb0''
     = [''did'', ''pkh'', ''eip155'', ''137'', ''0x742d35cc6634c0532925a3b844bc9e7595f0beb0'']"
  "split (CHR '':'') ''did:pkh:eip155:9007199254740993:0xab''
     = [''did'', ''pkh'', ''eip155'', ''9007199254740993'', ''0xab'']"
  "split (CHR '':'') ''did:pkh:eip155:137'' = [''did'', ''pkh'', ''eip155'', ''137'']"
  by simp_all

lemma digits_value_137: "digits_value 10 ''137'' = 137"
  by (simp add: digits_value_def digit_value_def)

lemma round_double_sample:
  "round_double (digits_value 10 ''9007199254740993'') = Some 9007199254740992"
  by (simp add: round_double_def digits_value_def digit_value_def bit_length.simps Let_def)



section \<open>The claims\<close>

text \<open>
  C1.  The claim: for a DID \<open>did:key:z6Mk<suffix>\<close>, \<open>extractPublicKeyFromDID\<close>
  strips the prefix \<open>did:key:z\<close> and returns the undecoded multibase suffix, a non-null
  string.  The code returns null for every input, so for every such DID too:
  \<open>slice(8)\<close> removes \<open>did:key:\<close> and keeps the \<open>z\<close>, and the test of the
  slice for \<open>6Mk\<close> never succeeds.
\<close>

theorem extractPublicKeyFromDID_always_null:
  "extractPublicKeyFromDID did = None
   \<and> extractPublicKeyFromDID (''did:key:z6Mk'' @ rest) = None"
proof -
  have "extractPublicKeyFromDID d = None" for d
  proof (cases "startsWith d ''did:key:z''")
    case True
    then obtain r where "d = ''did:key:z'' @ r" by (auto simp: startsWith_def prefix_def)
    then have "slice d 8 = CHR ''z'' # r" by (simp add: slice_def)
    then have "\<not> startsWith (slice d 8) ''6Mk''" by (simp add: startsWith_def)
    with True show ?thesis by (simp add: extractPublicKeyFromDID_def)
  next
    case False
    then show ?thesis by (simp add: extractPublicKeyFromDID_def)
  qed
  then show ?thesis by simp
qed

text \<open>
  C2.  The claim: the nonce in the payload of \<open>generate_auth_payload\<close> is encoded by
  the credential's provider, base58 for Solana.  The callback that reads the credential
  from the environment calls \<open>generateNonce\<close> for every provider: when the payload's
  provider is Solana the nonce is the base64 text of the 32 random bytes, and it is the
  base58 text of no bytes at all.
\<close>

theorem generate_auth_payload_solana_nonce_is_base64:
  assumes "generate_auth_payload L P env now hint = Inr payload"
      and "p_provider payload = Solana"
  shows "p_nonce payload = bytesToBase64 (webcrypto_getRandomValues P 32)
         \<and> (\<forall>bytes. p_nonce payload \<noteq> bs58_encode bytes)"
  using generate_auth_payload_nonce[OF assms(1)] generateNonce_not_base58[of P]
  by (simp add: generateNonce_def)

theorem generate_auth_payload_solana_nonce_is_base64_witness:
  "\<forall>L P. \<exists>payload. generate_auth_payload L P sample_env 1700000000000 None = Inr payload
     \<and> p_provider payload = Solana
     \<and> p_nonce payload = bytesToBase64 (webcrypto_getRandomValues P 32)
     \<and> (\<forall>bytes. p_nonce payload \<noteq> bs58_encode bytes)"
proof (intro allI)
  fix L P
  from sample_payload[of L P] obtain payload where
    p: "generate_auth_payload L P sample_env 1700000000000 None = Inr payload"
       "p_provider payload = Solana" by blast
  from generate_auth_payload_solana_nonce_is_base64[OF p] p
  show "\<exists>payload. generate_auth_payload L P sample_env 1700000000000 None = Inr payload
     \<and> p_provider payload = Solana
     \<and> p_nonce payload = bytesToBase64 (webcrypto_getRandomValues P 32)
     \<and> (\<forall>bytes. p_nonce payload \<noteq> bs58_encode bytes)"
    by blast
qed

text \<open>
  C3.  For every string, \<open>detectDidProvider\<close> returns a provider and throws nothing,
  and the provider is the first match of: the prefix \<open>did:key:\<close> (key), the prefix
  \<open>did:pkh:solana:\<close> (Solana), the prefix \<open>did:ethr:\<close> or \<open>did:pkh:eip155:\<close>
  (EVM), a text that base58-decodes to exactly 32 bytes (Solana), a valid EVM address
  (EVM), and key otherwise.  A valid EVM address is what \<open>ethers.isAddress\<close> accepts.
\<close>

theorem detectDidProvider_first_match:
  "detectDidProvider L did = Inr (detect_spec L did)"
proof -
  have solana: "isValidSolanaAddress did = Inr (decodes_to_32_bytes did)"
    by (rule isValidSolanaAddress_eq)
  have evm: "isValidEvmAddress L did = Inr (ethers_isAddress L did)"
    by (rule isValidEvmAddress_eq)
  show ?thesis
    unfolding detectDidProvider_def detect_spec_def startsWith_def solana evm
    by simp
qed

text \<open>
  C4.  For every environment and hint, \<open>getCredentialsFromEnv\<close> throws nothing and
  returns what the specification's resolver returns: the Solana, EVM and key branches
  in that order, each only when the hint is unset or names it, the first that accepts,
  and null when none does.  In particular, when \<open>AGENT_DID\<close> holds a valid Solana
  \<open>did:pkh\<close>, \<open>AGENT_PRIVATE_KEY\<close> holds a non-empty text and the two Solana
  variables are not set, resolution with no hint returns the Solana credential.
\<close>

theorem getCredentialsFromEnv_order:
  "getCredentialsFromEnv L env hint = Inr (resolve_spec L env hint)
   \<and> (env ''AGENT_DID'' = Some d \<and> valid_solana_did d
       \<and> env ''AGENT_PRIVATE_KEY'' = Some k \<and> k \<noteq> []
       \<and> env ''AGENT_SOLANA_DID'' = None \<and> env ''AGENT_SOLANA_PRIVATE_KEY'' = None
      \<longrightarrow> getCredentialsFromEnv L env None
            = Inr (Some \<lparr>c_did = d, c_privateKey = k, c_provider = Solana\<rparr>))"
  using getCredentialsFromEnv_eq generic_solana_resolves by blast

theorem getCredentialsFromEnv_order_witness:
  "\<forall>L. getCredentialsFromEnv L sample_env None
         = Inr (Some \<lparr>c_did = sample_solana_did, c_privateKey = sample_solana_key,
                      c_provider = Solana\<rparr>)
       \<and> resolve_spec L sample_env None
         = Some \<lparr>c_did = sample_solana_did, c_privateKey = sample_solana_key,
                 c_provider = Solana\<rparr>"
proof
  fix L
  note T = getCredentialsFromEnv_order[of L sample_env None sample_solana_did sample_solana_key]
  have h: "sample_env ''AGENT_DID'' = Some sample_solana_did \<and> valid_solana_did sample_solana_did
       \<and> sample_env ''AGENT_PRIVATE_KEY'' = Some sample_solana_key \<and> sample_solana_key \<noteq> []
       \<and> sample_env ''AGENT_SOLANA_DID'' = None \<and> sample_env ''AGENT_SOLANA_PRIVATE_KEY'' = None"
    by (simp add: sample_env_lookups sample_did_valid sample_key_nonempty)
  from T[THEN conjunct2, rule_format, OF h]
  have a: "getCredentialsFromEnv L sample_env None
         = Inr (Some \<lparr>c_did = sample_solana_did, c_privateKey = sample_solana_key,
                      c_provider = Solana\<rparr>)" .
  from T[THEN conjunct1]
  have "getCredentialsFromEnv L sample_env None = Inr (resolve_spec L sample_env None)" .
  with a show "getCredentialsFromEnv L sample_env None
         = Inr (Some \<lparr>c_did = sample_solana_did, c_privateKey = sample_solana_key,
                      c_provider = Solana\<rparr>)
       \<and> resolve_spec L sample_env None
         = Some \<lparr>c_did = sample_solana_did, c_privateKey = sample_solana_key,
                 c_provider = Solana\<rparr>"
    by simp
qed

text \<open>
  C5, as amended.  For every valid EVM address that is no ICAP address (a valid address
  of 40 hexadecimal digits, with or without \<open>0x\<close>), and every optional chain id and
  network, \<open>addressToEthrDid\<close> returns a DID.  When no explicit non-mainnet network or
  chain id is given, the DID has three segments and \<open>didToAddress\<close> returns the
  address in lower case with the \<open>0x\<close> prefix.  When one is given and the text that
  stands for it holds no colon, the DID has four segments and \<open>didToAddress\<close> returns
  the same address.  When that text holds a colon, the DID has more than four segments
  and \<open>didToAddress\<close> throws.  The text of a number holds no colon.
\<close>

theorem ethr_did_roundtrip:
  assumes valid: "ethers_isAddress L addr"
      and hex: "\<not> matches_icap addr"
  shows "(\<exists>did. addressToEthrDid L addr chainId network = Inr did
               \<and> (case ethr_segment chainId network of
                     None \<Rightarrow>
                       didToAddress did = Inr (normalizeAddress addr)
                       \<and> length (split (CHR '':'') did) = 3
                   | Some seg \<Rightarrow>
                       if colon_free seg
                       then didToAddress did = Inr (normalizeAddress addr)
                            \<and> length (split (CHR '':'') did) = 4
                       else didToAddress did = Inl (Error ''Invalid did:ethr format'')
                            \<and> 4 < length (split (CHR '':'') did)))
         \<and> (\<forall>n. colon_free (hexChainId (ChainNum n)))"
proof
  show "\<forall>n. colon_free (hexChainId (ChainNum n))"
  proof
    fix n
    have "CHR '':'' \<notin> set (hexChainId (ChainNum n))" by (rule hexChainId_no_colon) simp
    then show "colon_free (hexChainId (ChainNum n))" by (simp add: colon_free_def)
  qed
next
  have nvalid: "ethers_isAddress L (normalizeAddress addr)"
    using valid hex by (rule valid_hex_normalized)
  have a: "CHR '':'' \<notin> set (normalizeAddress addr)"
    using nvalid by (rule valid_normalized_no_colon)
  have low: "toLowerCase (normalizeAddress addr) = normalizeAddress addr"
    by (rule toLowerCase_normalizeAddress)
  note did = addressToEthrDid_eq[OF nvalid, of chainId network]
  show "\<exists>did. addressToEthrDid L addr chainId network = Inr did
               \<and> (case ethr_segment chainId network of
                     None \<Rightarrow>
                       didToAddress did = Inr (normalizeAddress addr)
                       \<and> length (split (CHR '':'') did) = 3
                   | Some seg \<Rightarrow>
                       if colon_free seg
                       then didToAddress did = Inr (normalizeAddress addr)
                            \<and> length (split (CHR '':'') did) = 4
                       else didToAddress did = Inl (Error ''Invalid did:ethr format'')
                            \<and> 4 < length (split (CHR '':'') did))"
  proof (cases "ethr_segment chainId network")
    case None
    with did low didToAddress_ethr_3[OF a] split_ethr_3[OF a] show ?thesis by simp
  next
    case (Some seg)
    show ?thesis
    proof (cases "colon_free seg")
      case True
      then have c: "CHR '':'' \<notin> set seg" by (simp add: colon_free_def)
      from did Some True low didToAddress_ethr_4[OF c a] split_ethr_4[OF c a]
      show ?thesis by simp
    next
      case False
      then have c: "CHR '':'' \<in> set seg" by (simp add: colon_free_def)
      from did Some False didToAddress_ethr_long[OF c, of "normalizeAddress addr"]
      show ?thesis by simp
    qed
  qed
qed

text \<open>
  The claim as stated, for every valid address and every network, fails twice.  With
  the network \<open>eip155:137\<close> the DID of a valid address has five segments and
  \<open>didToAddress\<close> throws.  And the ICAP address \<open>XE65GB6LDNXYOFTX0NSV3FUWKOWIXAMJK36\<close>
  (of \<open>0x8ba1f109551bd432803012645ac136ddd64dba72\<close>) is a valid EVM address, of which
  \<open>addressToEthrDid\<close> throws: lower-cased and prefixed, it is an address no more.
\<close>

theorem ethr_did_roundtrip_counterexample:
  "(\<forall>L. isValidEvmAddress L ''0x742d35cc6634c0532925a3b844bc9e7595f0beb0'' = Inr True
        \<and> addressToEthrDid L ''0x742d35cc6634c0532925a3b844bc9e7595f0beb0'' None (Some ''eip155:137'')
            = Inr ''did:ethr:eip155:137:0x742d35cc6634c0532925a3b844bc9e7595f0beb0''
        \<and> didToAddress ''did:ethr:eip155:137:0x742d35cc6634c0532925a3b844bc9e7595f0beb0''
            = Inl (Error ''Invalid did:ethr format''))
   \<and> (\<forall>g. isValidEvmAddress (icap_lib g) ''XE65GB6LDNXYOFTX0NSV3FUWKOWIXAMJK36'' = Inr True
          \<and> addressToEthrDid (icap_lib g) ''XE65GB6LDNXYOFTX0NSV3FUWKOWIXAMJK36'' None None
              = Inl (Error ''Invalid Ethereum address''))"
proof -
  have "didToAddress ''did:ethr:eip155:137:0x742d35cc6634c0532925a3b844bc9e7595f0beb0''
          = Inl (Error ''Invalid did:ethr format'')"
    by (simp add: didToAddress_def startsWith_def)
  then have colon: "\<forall>L. isValidEvmAddress L ''0x742d35cc6634c0532925a3b844bc9e7595f0beb0'' = Inr True
        \<and> addressToEthrDid L ''0x742d35cc6634c0532925a3b844bc9e7595f0beb0'' None (Some ''eip155:137'')
            = Inr ''did:ethr:eip155:137:0x742d35cc6634c0532925a3b844bc9e7595f0beb0''
        \<and> didToAddress ''did:ethr:eip155:137:0x742d35cc6634c0532925a3b844bc9e7595f0beb0''
            = Inl (Error ''Invalid did:ethr format'')"
    by (simp add: addressToEthrDid_def sample_address_normal sample_address_valid truthy_def
        isValidEvmAddress_eq)
  have icap: "\<forall>g. isValidEvmAddress (icap_lib g) ''XE65GB6LDNXYOFTX0NSV3FUWKOWIXAMJK36'' = Inr True
          \<and> addressToEthrDid (icap_lib g) ''XE65GB6LDNXYOFTX0NSV3FUWKOWIXAMJK36'' None None
              = Inl (Error ''Invalid Ethereum address'')"
    using icap_sample_normal_invalid
    by (simp add: isValidEvmAddress_eq icap_sample_valid addressToEthrDid_def Let_def)
  from colon icap show ?thesis by (rule conjI)
qed

theorem ethr_did_roundtrip_witness:
  "\<forall>L. (\<exists>did. addressToEthrDid L ''742D35CC6634C0532925A3B844BC9E7595F0BEB0''
                   (Some (ChainNum (Num 137))) None = Inr did
               \<and> didToAddress did = Inr ''0x742d35cc6634c0532925a3b844bc9e7595f0beb0''
               \<and> length (split (CHR '':'') did) = 4)
       \<and> (\<exists>did. addressToEthrDid L ''0x742d35cc6634c0532925a3b844bc9e7595f0beb0''
                   (Some (ChainStr ''a:b'')) (Some ''sepolia'') = Inr did
               \<and> didToAddress did = Inr ''0x742d35cc6634c0532925a3b844bc9e7595f0beb0''
               \<and> length (split (CHR '':'') did) = 4)
       \<and> (\<exists>did. addressToEthrDid L ''0x742d35cc6634c0532925a3b844bc9e7595f0beb0''
                   None None = Inr did
               \<and> didToAddress did = Inr ''0x742d35cc6634c0532925a3b844bc9e7595f0beb0''
               \<and> length (split (CHR '':'') did) = 3)
       \<and> (\<exists>did. addressToEthrDid L ''0x742d35cc6634c0532925a3b844bc9e7595f0beb0''
                   (Some (ChainStr ''a:b'')) None = Inr did
               \<and> didToAddress did = Inl (Error ''Invalid did:ethr format'')
               \<and> 4 < length (split (CHR '':'') did))"
proof
  fix L
  note T1 = ethr_did_roundtrip[OF upper_sample_valid samples_not_icap(1),
              of L "Some (ChainNum (Num 137))" None, THEN conjunct1]
  note T2 = ethr_did_roundtrip[OF sample_address_valid samples_not_icap(2),
              of L "Some (ChainStr ''a:b'')" "Some ''sepolia''", THEN conjunct1]
  note T3 = ethr_did_roundtrip[OF sample_address_valid samples_not_icap(2), of L None None,
              THEN conjunct1]
  note T4 = ethr_did_roundtrip[OF sample_address_valid samples_not_icap(2),
              of L "Some (ChainStr ''a:b'')" None, THEN conjunct1]
  from T1 have c1: "\<exists>did. addressToEthrDid L ''742D35CC6634C0532925A3B844BC9E7595F0BEB0''
                   (Some (ChainNum (Num 137))) None = Inr did
               \<and> didToAddress did = Inr ''0x742d35cc6634c0532925a3b844bc9e7595f0beb0''
               \<and> length (split (CHR '':'') did) = 4"
    by (simp add: sample_segments upper_sample_normal colon_free_def)
  from T2 have c2: "\<exists>did. addressToEthrDid L ''0x742d35cc6634c0532925a3b844bc9e7595f0beb0''
                   (Some (ChainStr ''a:b'')) (Some ''sepolia'') = Inr did
               \<and> didToAddress did = Inr ''0x742d35cc6634c0532925a3b844bc9e7595f0beb0''
               \<and> length (split (CHR '':'') did) = 4"
    by (simp add: sample_segments sample_address_normal colon_free_def)
  from T3 have c3: "\<exists>did. addressToEthrDid L ''0x742d35cc6634c0532925a3b844bc9e7595f0beb0''
                   None None = Inr did
               \<and> didToAddress did = Inr ''0x742d35cc6634c0532925a3b844bc9e7595f0beb0''
               \<and> length (split (CHR '':'') did) = 3"
    by (simp add: sample_segments sample_address_normal colon_free_def)
  from T4 have c4: "\<exists>did. addressToEthrDid L ''0x742d35cc6634c0532925a3b844bc9e7595f0beb0''
                   (Some (ChainStr ''a:b'')) None = Inr did
               \<and> didToAddress did = Inl (Error ''Invalid did:ethr format'')
               \<and> 4 < length (split (CHR '':'') did)"
    by (simp add: sample_segments sample_address_normal colon_free_def)
  from c1 c2 c3 c4 show "(\<exists>did. addressToEthrDid L ''742D35CC6634C0532925A3B844BC9E7595F0BEB0''
                   (Some (ChainNum (Num 137))) None = Inr did
               \<and> didToAddress did = Inr ''0x742d35cc6634c0532925a3b844bc9e7595f0beb0''
               \<and> length (split (CHR '':'') did) = 4)
       \<and> (\<exists>did. addressToEthrDid L ''0x742d35cc6634c0532925a3b844bc9e7595f0beb0''
                   (Some (ChainStr ''a:b'')) (Some ''sepolia'') = Inr did
               \<and> didToAddress did = Inr ''0x742d35cc6634c0532925a3b844bc9e7595f0beb0''
               \<and> length (split (CHR '':'') did) = 4)
       \<and> (\<exists>did. addressToEthrDid L ''0x742d35cc6634c0532925a3b844bc9e7595f0beb0''
                   None None = Inr did
               \<and> didToAddress did = Inr ''0x742d35cc6634c0532925a3b844bc9e7595f0beb0''
               \<and> length (split (CHR '':'') did) = 3)
       \<and> (\<exists>did. addressToEthrDid L ''0x742d35cc6634c0532925a3b844bc9e7595f0beb0''
                   (Some (ChainStr ''a:b'')) None = Inr did
               \<and> didToAddress did = Inl (Error ''Invalid did:ethr format'')
               \<and> 4 < length (split (CHR '':'') did))"
    by (intro conjI)
qed




text \<open>
  C7.  For every message and every key text that base58-decodes, \<open>signSolanaMessage\<close>
  throws the invalid-key-length error exactly when the decoded key is not 64 bytes
  long; when it is, the result is the base58 text of the 64-byte detached signature of
  the UTF-8 bytes of the message.  (A text that does not decode makes it throw the
  decoder's error.)
\<close>

theorem signSolanaMessage_key_length:
  assumes "bs58_decode privateKeyBase58 = Inr keyBytes"
  shows "(signSolanaMessage P message privateKeyBase58
            = Inl (Error ''Invalid private key length. Expected 64 bytes for Solana keypair.'')
          \<longleftrightarrow> length keyBytes \<noteq> 64)
         \<and> (length keyBytes = 64 \<longrightarrow>
              (\<exists>signature. nacl_sign_detached P (utf8_encode message) keyBytes = Inr signature
                  \<and> length signature = 64
                  \<and> signSolanaMessage P message privateKeyBase58 = Inr (bs58_encode signature)))"
proof (cases "length keyBytes = 64")
  case True
  from nacl_sign_detached_64[OF True] obtain signature where
    s: "nacl_sign_detached P (utf8_encode message) keyBytes = Inr signature" "length signature = 64"
    by blast
  with assms True show ?thesis by (simp add: signSolanaMessage_def)
next
  case False
  with assms show ?thesis by (simp add: signSolanaMessage_def)
qed

theorem signSolanaMessage_key_length_witness:
  "\<forall>P. (\<exists>keyBytes signature. bs58_decode sample_solana_key = Inr keyBytes \<and> length keyBytes = 64
            \<and> length signature = 64
            \<and> signSolanaMessage P ''hello'' sample_solana_key = Inr (bs58_encode signature))
       \<and> bs58_decode ''abc'' = Inr [1, 185, 123]
       \<and> signSolanaMessage P ''hello'' ''abc''
          = Inl (Error ''Invalid private key length. Expected 64 bytes for Solana keypair.'')"
proof
  fix P
  from sample_key_decodes obtain keyBytes where
    k: "bs58_decode sample_solana_key = Inr keyBytes" "length keyBytes = 64" by blast
  from signSolanaMessage_key_length[OF k(1), of P "''hello''"] k(2)
  obtain signature where "length signature = 64"
      "signSolanaMessage P ''hello'' sample_solana_key = Inr (bs58_encode signature)"
    by blast
  with k have a: "\<exists>keyBytes signature. bs58_decode sample_solana_key = Inr keyBytes
            \<and> length keyBytes = 64 \<and> length signature = 64
            \<and> signSolanaMessage P ''hello'' sample_solana_key = Inr (bs58_encode signature)"
    by blast
  from signSolanaMessage_key_length[OF abc_decodes, of P "''hello''"]
  have b: "signSolanaMessage P ''hello'' ''abc''
          = Inl (Error ''Invalid private key length. Expected 64 bytes for Solana keypair.'')"
    by simp
  from a b abc_decodes
  show "(\<exists>keyBytes signature. bs58_decode sample_solana_key = Inr keyBytes \<and> length keyBytes = 64
            \<and> length signature = 64
            \<and> signSolanaMessage P ''hello'' sample_solana_key = Inr (bs58_encode signature))
       \<and> bs58_decode ''abc'' = Inr [1, 185, 123]
       \<and> signSolanaMessage P ''hello'' ''abc''
          = Inl (Error ''Invalid private key length. Expected 64 bytes for Solana keypair.'')"
    by blast
qed

text \<open>
  C8, as amended.  \<open>detectDidProvider\<close> returns key for the text
  \<open>0x742d35Cc6634C0532925a3b844Bc9e7595f0bEb\<close>, which has 39 hexadecimal digits and is
  no valid address, and key for \<open>garbage\<close>; it returns EVM for the 40-digit address
  \<open>0x742d35cc6634c0532925a3b844bc9e7595f0beb0\<close>.
\<close>

theorem detectDidProvider_examples:
  "detectDidProvider L ''0x742d35Cc6634C0532925a3b844Bc9e7595f0bEb'' = Inr Key
   \<and> detectDidProvider L ''garbage'' = Inr Key
   \<and> detectDidProvider L ''0x742d35cc6634c0532925a3b844bc9e7595f0beb0'' = Inr Evm"
  by (simp add: detect_short_address detect_garbage detect_full_address)

text \<open>The claim as stated says EVM for the 39-digit text.\<close>

theorem detectDidProvider_short_address_not_evm:
  "\<forall>L. detectDidProvider L ''0x742d35Cc6634C0532925a3b844Bc9e7595f0bEb'' \<noteq> Inr Evm"
  by (simp add: detect_short_address)

text \<open>
  C9.  Whenever \<open>getCredentialsFromEnv\<close> returns a credential, its DID passed the
  check of its provider, and its private key is a non-empty value of one of the three
  key variables, taken as it is.  The text of the keys is never looked at: two
  environments that agree on every other variable, and on which key variables are
  non-empty, resolve to the same DID and provider.  So a returned key can be one that
  the signer rejects: with the key \<open>abc\<close> the Solana credential is returned and
  \<open>signSolanaMessage\<close> throws.
\<close>

theorem getCredentialsFromEnv_key_unchecked:
  "(getCredentialsFromEnv L env hint = Inr (Some c) \<longrightarrow>
      c_privateKey c \<noteq> [] \<and> Some (c_privateKey c) \<in> set (map env key_vars)
      \<and> (case c_provider c of
            Solana \<Rightarrow> valid_solana_did (c_did c) \<or> decodes_to_32_bytes (c_did c)
          | Evm \<Rightarrow> valid_evm_did L (c_did c) \<or> ethers_isAddress L (c_did c)
          | Key \<Rightarrow> prefix ''did:key:'' (c_did c)))
   \<and> ((\<forall>v. v \<notin> set key_vars \<longrightarrow> env' v = env v)
       \<and> (\<forall>v \<in> set key_vars. truthy (env' v) = truthy (env v)) \<longrightarrow>
       map_sum id (map_option did_and_provider) (getCredentialsFromEnv L env' hint)
       = map_sum id (map_option did_and_provider) (getCredentialsFromEnv L env hint))
   \<and> (\<exists>c e. getCredentialsFromEnv L bad_key_env None = Inr (Some c) \<and> c_provider c = Solana
          \<and> c_privateKey c = ''abc''
          \<and> signSolanaMessage P message (c_privateKey c) = Inl e)"
proof (intro conjI impI)
  assume "getCredentialsFromEnv L env hint = Inr (Some c)"
  from returned_credential_checked[OF this]
  show "c_privateKey c \<noteq> []" "Some (c_privateKey c) \<in> set (map env key_vars)"
    "case c_provider c of
            Solana \<Rightarrow> valid_solana_did (c_did c) \<or> decodes_to_32_bytes (c_did c)
          | Evm \<Rightarrow> valid_evm_did L (c_did c) \<or> ethers_isAddress L (c_did c)
          | Key \<Rightarrow> prefix ''did:key:'' (c_did c)"
    by simp_all
next
  assume "(\<forall>v. v \<notin> set key_vars \<longrightarrow> env' v = env v)
       \<and> (\<forall>v \<in> set key_vars. truthy (env' v) = truthy (env v))"
  then show "map_sum id (map_option did_and_provider) (getCredentialsFromEnv L env' hint)
       = map_sum id (map_option did_and_provider) (getCredentialsFromEnv L env hint)"
    using resolve_ignores_key_text[of env' env L hint]
    by (simp add: getCredentialsFromEnv_eq)
next
  show "\<exists>c e. getCredentialsFromEnv L bad_key_env None = Inr (Some c) \<and> c_provider c = Solana
          \<and> c_privateKey c = ''abc''
          \<and> signSolanaMessage P message (c_privateKey c) = Inl e"
    by (rule bad_key_rejected)
qed

theorem getCredentialsFromEnv_key_unchecked_witness:
  "\<forall>L. getCredentialsFromEnv L bad_key_env None
          = Inr (Some \<lparr>c_did = sample_solana_did, c_privateKey = ''abc'', c_provider = Solana\<rparr>)
       \<and> (valid_solana_did sample_solana_did \<or> decodes_to_32_bytes sample_solana_did)
       \<and> map_sum id (map_option did_and_provider) (getCredentialsFromEnv L sample_env None)
          = map_sum id (map_option did_and_provider) (getCredentialsFromEnv L bad_key_env None)"
proof
  fix L
  let ?c = "\<lparr>c_did = sample_solana_did, c_privateKey = ''abc'', c_provider = Solana\<rparr>"
  note T = getCredentialsFromEnv_key_unchecked[of L bad_key_env None ?c sample_env
      rejecting_primitives "''hello''"]
  have r: "getCredentialsFromEnv L bad_key_env None = Inr (Some ?c)"
    by (rule generic_solana_resolves) (simp_all add: bad_key_env_lookups sample_did_valid)
  from T[THEN conjunct1, rule_format, OF r]
  have v: "valid_solana_did sample_solana_did \<or> decodes_to_32_bytes sample_solana_did"
    by simp
  have h: "(\<forall>v. v \<notin> set key_vars \<longrightarrow> sample_env v = bad_key_env v)
       \<and> (\<forall>v \<in> set key_vars. truthy (sample_env v) = truthy (bad_key_env v))"
    by (simp add: sample_env_def bad_key_env_def key_vars_def truthy_def sample_key_nonempty)
  from T[THEN conjunct2, THEN conjunct1, rule_format, OF h] r v
  show "getCredentialsFromEnv L bad_key_env None = Inr (Some ?c)
       \<and> (valid_solana_did sample_solana_did \<or> decodes_to_32_bytes sample_solana_did)
       \<and> map_sum id (map_option did_and_provider) (getCredentialsFromEnv L sample_env None)
          = map_sum id (map_option did_and_provider) (getCredentialsFromEnv L bad_key_env None)"
    by simp
qed

text \<open>
  C10.  For a DID that starts with \<open>did:pkh:eip155:\<close>, \<open>extractChainId\<close> returns the
  number \<open>parseInt(segment 3, 10)\<close> when the DID has exactly five segments, and null
  otherwise.  The segment is not validated: one with no decimal digit in it gives the
  number \<open>NaN\<close>, and one of decimal digits only gives the double nearest to the
  integer it writes, which is that integer below \<open>2 ^ 53\<close> and an infinity from
  \<open>2 ^ 1024\<close> on.
\<close>

theorem extractChainId_pkh:
  assumes "startsWith did ''did:pkh:eip155:''"
  shows "extractChainId did =
           (if length (split (CHR '':'') did) = 5
            then Number (parseInt (split (CHR '':'') did ! 3) 10) else Null)
         \<and> (length (split (CHR '':'') did) = 5
              \<and> list_all (\<lambda>c. digit_value 10 c = None) (split (CHR '':'') did ! 3)
             \<longrightarrow> extractChainId did = Number NaN)
         \<and> (length (split (CHR '':'') did) = 5
              \<and> split (CHR '':'') did ! 3 \<noteq> []
              \<and> list_all (\<lambda>c. digit_value 10 c \<noteq> None) (split (CHR '':'') did ! 3)
             \<longrightarrow> extractChainId did =
                   (case round_double (digits_value 10 (split (CHR '':'') did ! 3)) of
                      None \<Rightarrow> Number Infinity
                    | Some m \<Rightarrow> Number (Num (int m)))
                 \<and> (digits_value 10 (split (CHR '':'') did ! 3) < 2 ^ 53 \<longrightarrow>
                      extractChainId did
                        = Number (Num (int (digits_value 10 (split (CHR '':'') did ! 3)))))
                 \<and> (2 ^ 1024 \<le> digits_value 10 (split (CHR '':'') did ! 3) \<longrightarrow>
                      extractChainId did = Number Infinity))"
proof -
  from assms have "\<not> startsWith did ''did:ethr:''"
    by (auto simp: startsWith_def prefix_def)
  with assms have eq: "extractChainId did =
           (if length (split (CHR '':'') did) = 5
            then Number (parseInt (split (CHR '':'') did ! 3) 10) else Null)"
    by (simp add: extractChainId_def Let_def)
  show ?thesis
  proof (intro conjI impI)
    show "extractChainId did =
           (if length (split (CHR '':'') did) = 5
            then Number (parseInt (split (CHR '':'') did ! 3) 10) else Null)"
      by (rule eq)
  next
    assume "length (split (CHR '':'') did) = 5
              \<and> list_all (\<lambda>c. digit_value 10 c = None) (split (CHR '':'') did ! 3)"
    then show "extractChainId did = Number NaN"
      by (simp add: eq parseInt_no_digit)
  next
    assume h: "length (split (CHR '':'') did) = 5
              \<and> split (CHR '':'') did ! 3 \<noteq> []
              \<and> list_all (\<lambda>c. digit_value 10 c \<noteq> None) (split (CHR '':'') did ! 3)"
    then have p: "extractChainId did
                    = Number (case round_double (digits_value 10 (split (CHR '':'') did ! 3)) of
                                None \<Rightarrow> Infinity | Some m \<Rightarrow> Num (int m))"
      by (simp add: eq parseInt_decimal)
    then show "extractChainId did =
                   (case round_double (digits_value 10 (split (CHR '':'') did ! 3)) of
                      None \<Rightarrow> Number Infinity
                    | Some m \<Rightarrow> Number (Num (int m)))"
      by (simp split: option.splits)
    {
      assume "digits_value 10 (split (CHR '':'') did ! 3) < 2 ^ 53"
      then show "extractChainId did
                   = Number (Num (int (digits_value 10 (split (CHR '':'') did ! 3))))"
        unfolding p by (simp only: round_double_small option.case)
    }
    {
      assume "2 ^ 1024 \<le> digits_value 10 (split (CHR '':'') did ! 3)"
      then show "extractChainId did = Number Infinity"
        unfolding p by (simp only: round_double_overflow option.case)
    }
  qed
qed

theorem extractChainId_pkh_witness:
  "extractChainId ''did:pkh:eip155:mainnet:0x742d35cc6634c0532925a3b844bc9e7595f0beb0'' = Number NaN
   \<and> extractChainId ''did:pkh:eip155:137:0x742d35cc6634c0532925a3b844bc9e7595f0beb0''
       = Number (Num 137)
   \<and> extractChainId ''did:pkh:eip155:9007199254740993:0xab'' = Number (Num 9007199254740992)
   \<and> extractChainId (''did:pkh:eip155:'' @ long_decimal @ '':0xab'') = Number Infinity
   \<and> extractChainId ''did:pkh:eip155:12abc:0xab'' = Number (Num 12)
   \<and> extractChainId ''did:pkh:eip155:137'' = Null"
proof -
  have p: "startsWith ''did:pkh:eip155:mainnet:0x742d35cc6634c0532925a3b844bc9e7595f0beb0'' ''did:pkh:eip155:''"
      "startsWith ''did:pkh:eip155:137:0x742d35cc6634c0532925a3b844bc9e7595f0beb0'' ''did:pkh:eip155:''"
      "startsWith ''did:pkh:eip155:9007199254740993:0xab'' ''did:pkh:eip155:''"
      "startsWith (''did:pkh:eip155:'' @ long_decimal @ '':0xab'') ''did:pkh:eip155:''"
      "startsWith ''did:pkh:eip155:137'' ''did:pkh:eip155:''"
      "startsWith ''did:pkh:eip155:12abc:0xab'' ''did:pkh:eip155:''"
    by (simp_all add: startsWith_def)
  from extractChainId_pkh[OF p(1), THEN conjunct2, THEN conjunct1]
  have c1: "extractChainId ''did:pkh:eip155:mainnet:0x742d35cc6634c0532925a3b844bc9e7595f0beb0'' = Number NaN"
    by (simp add: split_pkh_samples digit_value_def del: split.simps)
  from extractChainId_pkh[OF p(2), THEN conjunct2, THEN conjunct2]
  have c2: "extractChainId ''did:pkh:eip155:137:0x742d35cc6634c0532925a3b844bc9e7595f0beb0''
       = Number (Num 137)"
    by (simp add: split_pkh_samples digit_value_def digits_value_137 round_double_def
        del: split.simps)
  from extractChainId_pkh[OF p(3), THEN conjunct2, THEN conjunct2]
  have c3: "extractChainId ''did:pkh:eip155:9007199254740993:0xab'' = Number (Num 9007199254740992)"
    by (simp add: split_pkh_samples digit_value_def round_double_sample del: split.simps)
  from extractChainId_pkh[OF p(4), THEN conjunct2, THEN conjunct2, unfolded split_pkh_long]
    long_decimal_facts
  have c4: "extractChainId (''did:pkh:eip155:'' @ long_decimal @ '':0xab'') = Number Infinity"
    by (simp add: round_double_overflow)
  from extractChainId_pkh[OF p(5), THEN conjunct1]
  have c5: "extractChainId ''did:pkh:eip155:137'' = Null"
    by (simp add: split_pkh_samples del: split.simps)
  from extractChainId_pkh[OF p(6), THEN conjunct1]
  have c6: "extractChainId ''did:pkh:eip155:12abc:0xab'' = Number (Num 12)"
    by (simp add: parseInt_def digits_value_def digit_value_def is_whitespace_def
        round_double_def Let_def)
  from c1 c2 c3 c4 c5 c6 show ?thesis by simp
qed

end
